theory Spec2Isabelle
  imports Main
begin

section \<open>Outcomes, element types and raw memory\<close>

text \<open>
  The repository is one header, present in two drafts: \<^verbatim>\<open>src/advanced-vector/vector.h\<close> and
  \<^verbatim>\<open>src/unnamed/part_000\<close>. Both define \<^verbatim>\<open>RawMemory<T>\<close> and \<^verbatim>\<open>Vector<T>\<close>. A function
  whose code is the same in both drafts is embedded once under its own name; where
  the drafts differ the two embeddings carry the suffixes \<open>_vector_h\<close> and \<open>_part_000\<close>.
  Member names lose their trailing underscore (\<^verbatim>\<open>size_\<close> is \<open>size_m\<close>, and so on).

  A call either returns, or propagates a C++ exception, or leaves the language's
  defined behaviour (a failed \<^verbatim>\<open>assert\<close>, an access outside a block, a destructor run
  on raw storage, a second release of a block). Every operation returns its outcome
  together with the state it leaves behind, so that the state after a throw can be
  inspected.
\<close>

datatype exn = bad_alloc | elem_error

datatype 'r outcome = Ret 'r | Throw exn | Fault

definition and_then ::
  "('s \<Rightarrow> 'r outcome \<times> 's) \<Rightarrow> ('r \<Rightarrow> 's \<Rightarrow> 'q outcome \<times> 's) \<Rightarrow> 's \<Rightarrow> 'q outcome \<times> 's" where
  "and_then f g s =
     (case f s of
        (Ret r, s') \<Rightarrow> g r s'
      | (Throw e, s') \<Rightarrow> (Throw e, s')
      | (Fault, s') \<Rightarrow> (Fault, s'))"

text \<open>\<^verbatim>\<open>try { f } catch (...) { h; throw; }\<close>\<close>

definition try_catch_rethrow ::
  "('s \<Rightarrow> 'r outcome \<times> 's) \<Rightarrow> ('s \<Rightarrow> unit outcome \<times> 's) \<Rightarrow> 's \<Rightarrow> 'r outcome \<times> 's" where
  "try_catch_rethrow f h s =
     (case f s of
        (Throw e, s') \<Rightarrow>
          (case h s' of
             (Ret _, s'') \<Rightarrow> (Throw e, s'')
           | (Throw e', s'') \<Rightarrow> (Throw e', s'')
           | (Fault, s'') \<Rightarrow> (Fault, s''))
      | r \<Rightarrow> r)"

text \<open>
  The element type \<^verbatim>\<open>T\<close> is a parameter of the templates. What the container uses of it
  is collected in a record: the two type traits tested by \<^verbatim>\<open>if constexpr\<close>, and for each
  operation of \<^verbatim>\<open>T\<close> whether it throws on a given source value. A copy or a move that
  does not throw yields the source's value; a move leaves \<open>moved_from\<close> of that value in
  the source. An operation that throws leaves its operands as they were.
\<close>

record 'a elem_type =
  nothrow_move_constructible :: bool
  copy_constructible :: bool
  default_value :: "'a option"
  copy_throws :: "'a \<Rightarrow> bool"
  move_throws :: "'a \<Rightarrow> bool"
  copy_assign_throws :: "'a \<Rightarrow> bool"
  move_assign_throws :: "'a \<Rightarrow> bool"
  moved_from :: "'a \<Rightarrow> 'a"

text \<open>The arguments of a constructor call: \<^verbatim>\<open>T(const T&)\<close>, \<^verbatim>\<open>T(T&&)\<close>, or any other
  constructor, which either yields a value or throws.\<close>

datatype 'a init = Copy 'a | Move 'a | Args "'a option"

text \<open>
  Memory is a set of blocks handed out by \<^verbatim>\<open>operator new\<close>. A block is a list of slots,
  one per element: \<open>None\<close> is raw storage, \<open>Some x\<close> a live object of value \<open>x\<close>. Block \<open>0\<close> is
  the null pointer. A \<^verbatim>\<open>T*\<close> is a block and an element offset. All objects of one memory
  are of the element type \<^verbatim>\<open>T\<close> at which the templates are instantiated, and \<open>sizeof_T\<close> is
  \<^verbatim>\<open>sizeof(T)\<close>, the number of bytes of a slot. The allocator hands out fresh blocks while
  \<open>avail\<close> slots remain and throws \<^verbatim>\<open>std::bad_alloc\<close> otherwise. The counters record every
  completed constructor, assignment and destructor call of \<^verbatim>\<open>T\<close>.
\<close>

type_synonym block = nat

type_synonym ptr = "block \<times> nat"

record 'a mem =
  heap :: "block \<Rightarrow> 'a option list option"
  brk :: block
  avail :: nat
  sizeof_T :: nat
  ctor_calls :: nat
  default_ctor_calls :: nat
  copy_ctor_calls :: nat
  move_ctor_calls :: nat
  copy_assign_calls :: nat
  move_assign_calls :: nat
  dtor_calls :: nat

definition SIZE_MAX :: nat where
  "SIZE_MAX = 2 ^ 64 - 1"

definition size_t :: "int \<Rightarrow> nat" where
  "size_t i = nat (i mod 2 ^ 64)"

definition ptr_add :: "ptr \<Rightarrow> nat \<Rightarrow> ptr" where
  "ptr_add p k = (fst p, snd p + k)"

definition slot :: "'a mem \<Rightarrow> ptr \<Rightarrow> 'a option option" where
  "slot m p =
     (case heap m (fst p) of
        None \<Rightarrow> None
      | Some xs \<Rightarrow> if snd p < length xs then Some (xs ! snd p) else None)"

definition put :: "ptr \<Rightarrow> 'a option \<Rightarrow> 'a mem \<Rightarrow> 'a mem" where
  "put p s m =
     m\<lparr>heap := (heap m)(fst p := map_option (\<lambda>xs. xs[snd p := s]) (heap m (fst p)))\<rparr>"

text \<open>Running a constructor of \<^verbatim>\<open>T\<close>.\<close>

definition run_constructor :: "'a elem_type \<Rightarrow> 'a init \<Rightarrow> 'a mem \<Rightarrow> 'a outcome \<times> 'a mem" where
  "run_constructor T i m =
     (case i of
        Copy x \<Rightarrow>
          if copy_throws T x then (Throw elem_error, m)
          else (Ret x, m\<lparr>copy_ctor_calls := copy_ctor_calls m + 1\<rparr>)
      | Move x \<Rightarrow>
          if move_throws T x then (Throw elem_error, m)
          else (Ret x, m\<lparr>move_ctor_calls := move_ctor_calls m + 1\<rparr>)
      | Args None \<Rightarrow> (Throw elem_error, m)
      | Args (Some x) \<Rightarrow> (Ret x, m\<lparr>ctor_calls := ctor_calls m + 1\<rparr>))"

text \<open>\<^verbatim>\<open>new (p) T(i)\<close>\<close>

definition construct_at :: "'a elem_type \<Rightarrow> ptr \<Rightarrow> 'a init \<Rightarrow> 'a mem \<Rightarrow> unit outcome \<times> 'a mem" where
  "construct_at T p i m =
     (case slot m p of
        None \<Rightarrow> (Fault, m)
      | Some _ \<Rightarrow>
          (case run_constructor T i m of
             (Ret x, m') \<Rightarrow> (Ret (), put p (Some x) m')
           | (Throw e, m') \<Rightarrow> (Throw e, m')
           | (Fault, m') \<Rightarrow> (Fault, m')))"

text \<open>\<^verbatim>\<open>new (dst) T(*src)\<close> and \<^verbatim>\<open>new (dst) T(std::move(*src))\<close> for an object in memory.\<close>

definition copy_construct_at :: "'a elem_type \<Rightarrow> ptr \<Rightarrow> ptr \<Rightarrow> 'a mem \<Rightarrow> unit outcome \<times> 'a mem" where
  "copy_construct_at T src dst m =
     (case slot m src of
        Some (Some x) \<Rightarrow> construct_at T dst (Copy x) m
      | _ \<Rightarrow> (Fault, m))"

definition move_construct_at :: "'a elem_type \<Rightarrow> ptr \<Rightarrow> ptr \<Rightarrow> 'a mem \<Rightarrow> unit outcome \<times> 'a mem" where
  "move_construct_at T src dst m =
     (case slot m src of
        Some (Some x) \<Rightarrow>
          (case construct_at T dst (Move x) m of
             (Ret _, m') \<Rightarrow> (Ret (), put src (Some (moved_from T x)) m')
           | r \<Rightarrow> r)
      | _ \<Rightarrow> (Fault, m))"

definition value_construct_at :: "'a elem_type \<Rightarrow> ptr \<Rightarrow> 'a mem \<Rightarrow> unit outcome \<times> 'a mem" where
  "value_construct_at T p m =
     (case slot m p of
        None \<Rightarrow> (Fault, m)
      | Some _ \<Rightarrow>
          (case default_value T of
             None \<Rightarrow> (Throw elem_error, m)
           | Some x \<Rightarrow> (Ret (), put p (Some x) (m\<lparr>default_ctor_calls := default_ctor_calls m + 1\<rparr>))))"

text \<open>\<^verbatim>\<open>p->~T()\<close>: destructors do not throw.\<close>

definition destroy_at :: "ptr \<Rightarrow> 'a mem \<Rightarrow> unit outcome \<times> 'a mem" where
  "destroy_at p m =
     (case slot m p of
        Some (Some x) \<Rightarrow> (Ret (), put p None (m\<lparr>dtor_calls := dtor_calls m + 1\<rparr>))
      | _ \<Rightarrow> (Fault, m))"

text \<open>\<^verbatim>\<open>*dst = *src\<close> and \<^verbatim>\<open>*dst = std::move(*src)\<close>: both operands are live objects.\<close>

definition copy_assign_at :: "'a elem_type \<Rightarrow> ptr \<Rightarrow> ptr \<Rightarrow> 'a mem \<Rightarrow> unit outcome \<times> 'a mem" where
  "copy_assign_at T src dst m =
     (case (slot m src, slot m dst) of
        (Some (Some x), Some (Some y)) \<Rightarrow>
          if copy_assign_throws T x then (Throw elem_error, m)
          else (Ret (), put dst (Some x) (m\<lparr>copy_assign_calls := copy_assign_calls m + 1\<rparr>))
      | _ \<Rightarrow> (Fault, m))"

definition move_assign_at :: "'a elem_type \<Rightarrow> ptr \<Rightarrow> ptr \<Rightarrow> 'a mem \<Rightarrow> unit outcome \<times> 'a mem" where
  "move_assign_at T src dst m =
     (case (slot m src, slot m dst) of
        (Some (Some x), Some (Some y)) \<Rightarrow>
          if move_assign_throws T x then (Throw elem_error, m)
          else (Ret (), put src (Some (moved_from T x))
                  (put dst (Some x) (m\<lparr>move_assign_calls := move_assign_calls m + 1\<rparr>)))
      | _ \<Rightarrow> (Fault, m))"

text \<open>\<^verbatim>\<open>dst = std::move(x)\<close> for a local object \<open>x\<close>.\<close>

definition move_assign_from :: "'a elem_type \<Rightarrow> 'a \<Rightarrow> ptr \<Rightarrow> 'a mem \<Rightarrow> unit outcome \<times> 'a mem" where
  "move_assign_from T x dst m =
     (case slot m dst of
        Some (Some y) \<Rightarrow>
          if move_assign_throws T x then (Throw elem_error, m)
          else (Ret (), put dst (Some x) (m\<lparr>move_assign_calls := move_assign_calls m + 1\<rparr>))
      | _ \<Rightarrow> (Fault, m))"

text \<open>In a handler: after the clean-up \<open>r\<close> has run, \<^verbatim>\<open>throw;\<close> propagates \<open>e\<close> again.\<close>

definition rethrow :: "exn \<Rightarrow> unit outcome \<times> 's \<Rightarrow> 'r outcome \<times> 's" where
  "rethrow e r =
     (case r of
        (Ret _, s) \<Rightarrow> (Throw e, s)
      | (Throw e', s) \<Rightarrow> (Throw e', s)
      | (Fault, s) \<Rightarrow> (Fault, s))"

section \<open>The algorithms of the standard library the container calls\<close>

text \<open>
  These are not code of the repository; they follow the C++ standard. The
  \<^verbatim>\<open>uninitialized_\<close> algorithms construct \<open>n\<close> objects in raw storage and, when a
  constructor throws, destroy the objects they had constructed (the standard leaves
  the order open) before the exception leaves them. \<^verbatim>\<open>std::copy\<close>, \<^verbatim>\<open>std::move\<close> and
  \<^verbatim>\<open>std::move_backward\<close> assign element by element and undo nothing.
\<close>

fun uninitialized_copy_n :: "'a elem_type \<Rightarrow> ptr \<Rightarrow> nat \<Rightarrow> ptr \<Rightarrow> 'a mem \<Rightarrow> unit outcome \<times> 'a mem" where
  "uninitialized_copy_n T src 0 dst m = (Ret (), m)"
| "uninitialized_copy_n T src (Suc n) dst m =
     (case copy_construct_at T src dst m of
        (Ret _, m1) \<Rightarrow>
          (case uninitialized_copy_n T (ptr_add src 1) n (ptr_add dst 1) m1 of
             (Throw e, m2) \<Rightarrow> rethrow e (destroy_at dst m2)
           | r \<Rightarrow> r)
      | r \<Rightarrow> r)"

fun uninitialized_move_n :: "'a elem_type \<Rightarrow> ptr \<Rightarrow> nat \<Rightarrow> ptr \<Rightarrow> 'a mem \<Rightarrow> unit outcome \<times> 'a mem" where
  "uninitialized_move_n T src 0 dst m = (Ret (), m)"
| "uninitialized_move_n T src (Suc n) dst m =
     (case move_construct_at T src dst m of
        (Ret _, m1) \<Rightarrow>
          (case uninitialized_move_n T (ptr_add src 1) n (ptr_add dst 1) m1 of
             (Throw e, m2) \<Rightarrow> rethrow e (destroy_at dst m2)
           | r \<Rightarrow> r)
      | r \<Rightarrow> r)"

fun uninitialized_value_construct_n :: "'a elem_type \<Rightarrow> ptr \<Rightarrow> nat \<Rightarrow> 'a mem \<Rightarrow> unit outcome \<times> 'a mem" where
  "uninitialized_value_construct_n T p 0 m = (Ret (), m)"
| "uninitialized_value_construct_n T p (Suc n) m =
     (case value_construct_at T p m of
        (Ret _, m1) \<Rightarrow>
          (case uninitialized_value_construct_n T (ptr_add p 1) n m1 of
             (Throw e, m2) \<Rightarrow> rethrow e (destroy_at p m2)
           | r \<Rightarrow> r)
      | r \<Rightarrow> r)"

fun destroy_n :: "ptr \<Rightarrow> nat \<Rightarrow> 'a mem \<Rightarrow> unit outcome \<times> 'a mem" where
  "destroy_n p 0 m = (Ret (), m)"
| "destroy_n p (Suc n) m =
     (case destroy_at p m of
        (Ret _, m1) \<Rightarrow> destroy_n (ptr_add p 1) n m1
      | r \<Rightarrow> r)"

fun copy_loop :: "'a elem_type \<Rightarrow> ptr \<Rightarrow> nat \<Rightarrow> ptr \<Rightarrow> 'a mem \<Rightarrow> unit outcome \<times> 'a mem" where
  "copy_loop T src 0 dst m = (Ret (), m)"
| "copy_loop T src (Suc n) dst m =
     (case copy_assign_at T src dst m of
        (Ret _, m1) \<Rightarrow> copy_loop T (ptr_add src 1) n (ptr_add dst 1) m1
      | r \<Rightarrow> r)"

fun move_loop :: "'a elem_type \<Rightarrow> ptr \<Rightarrow> nat \<Rightarrow> ptr \<Rightarrow> 'a mem \<Rightarrow> unit outcome \<times> 'a mem" where
  "move_loop T src 0 dst m = (Ret (), m)"
| "move_loop T src (Suc n) dst m =
     (case move_assign_at T src dst m of
        (Ret _, m1) \<Rightarrow> move_loop T (ptr_add src 1) n (ptr_add dst 1) m1
      | r \<Rightarrow> r)"

fun move_backward_loop :: "'a elem_type \<Rightarrow> ptr \<Rightarrow> nat \<Rightarrow> ptr \<Rightarrow> 'a mem \<Rightarrow> unit outcome \<times> 'a mem" where
  "move_backward_loop T first 0 d_last m = (Ret (), m)"
| "move_backward_loop T first (Suc n) d_last m =
     (if snd d_last = 0 then (Fault, m)
      else (case move_assign_at T (ptr_add first n) (fst d_last, snd d_last - 1) m of
              (Ret _, m1) \<Rightarrow> move_backward_loop T first n (fst d_last, snd d_last - 1) m1
            | r \<Rightarrow> r))"

text \<open>A range \<open>[first, last)\<close> is valid when both pointers are into one block and
  \<open>first\<close> is not beyond \<open>last\<close>.\<close>

definition range_length :: "ptr \<Rightarrow> ptr \<Rightarrow> nat option" where
  "range_length first lst =
     (if fst first = fst lst \<and> snd first \<le> snd lst then Some (snd lst - snd first) else None)"

definition std_copy :: "'a elem_type \<Rightarrow> ptr \<Rightarrow> ptr \<Rightarrow> ptr \<Rightarrow> 'a mem \<Rightarrow> unit outcome \<times> 'a mem" where
  "std_copy T first lst d_first m =
     (case range_length first lst of
        None \<Rightarrow> (Fault, m)
      | Some n \<Rightarrow> copy_loop T first n d_first m)"

definition std_move :: "'a elem_type \<Rightarrow> ptr \<Rightarrow> ptr \<Rightarrow> ptr \<Rightarrow> 'a mem \<Rightarrow> unit outcome \<times> 'a mem" where
  "std_move T first lst d_first m =
     (case range_length first lst of
        None \<Rightarrow> (Fault, m)
      | Some n \<Rightarrow> move_loop T first n d_first m)"

definition std_move_backward :: "'a elem_type \<Rightarrow> ptr \<Rightarrow> ptr \<Rightarrow> ptr \<Rightarrow> 'a mem \<Rightarrow> unit outcome \<times> 'a mem" where
  "std_move_backward T first lst d_last m =
     (case range_length first lst of
        None \<Rightarrow> (Fault, m)
      | Some n \<Rightarrow> move_backward_loop T first n d_last m)"

text \<open>\<^verbatim>\<open>p - 1\<close> on a pointer: there is no element before the start of a block.\<close>

definition ptr_dec :: "ptr \<Rightarrow> 's \<Rightarrow> ptr outcome \<times> 's" where
  "ptr_dec p s = (if snd p = 0 then (Fault, s) else (Ret (fst p, snd p - 1), s))"

text \<open>\<^verbatim>\<open>size_t index = pos - base\<close>: the difference of two pointers into one block,
  converted to \<^verbatim>\<open>size_t\<close>.\<close>

definition ptr_diff :: "ptr \<Rightarrow> ptr \<Rightarrow> nat option" where
  "ptr_diff p q = (if fst p = fst q then Some (size_t (int (snd p) - int (snd q))) else None)"

section \<open>RawMemory\<close>

record RawMemory =
  buffer_m :: block
  capacity_m :: nat

text \<open>\<^verbatim>\<open>operator new(bytes)\<close>: the request is a number of bytes. The fresh block holds as
  many slots as objects of \<^verbatim>\<open>sizeof(T)\<close> bytes fit into it; a request of 0 bytes yields a
  block, not the null pointer, that holds no slot.\<close>

definition operator_new :: "nat \<Rightarrow> 'a mem \<Rightarrow> block outcome \<times> 'a mem" where
  "operator_new bytes m =
     (if bytes div sizeof_T m \<le> avail m
      then (Ret (brk m),
            m\<lparr>heap := (heap m)(brk m := Some (replicate (bytes div sizeof_T m) None)),
              brk := brk m + 1, avail := avail m - bytes div sizeof_T m\<rparr>)
      else (Throw bad_alloc, m))"

text \<open>\<^verbatim>\<open>n != 0 ? static_cast<T*>(operator new(n * sizeof(T))) : nullptr\<close>: the product is
  computed in \<^verbatim>\<open>size_t\<close> and wraps around.\<close>

definition Allocate :: "nat \<Rightarrow> 'a mem \<Rightarrow> block outcome \<times> 'a mem" where
  "Allocate n m =
     (if n \<noteq> 0 then operator_new (size_t (int n * int (sizeof_T m))) m
      else (Ret 0, m))"

text \<open>\<^verbatim>\<open>operator delete(buf)\<close>: nothing happens for the null pointer; the block must be
  one that is allocated. Its slots return to the allocator as they are: no destructor
  runs.\<close>

definition Deallocate :: "block \<Rightarrow> 'a mem \<Rightarrow> unit outcome \<times> 'a mem" where
  "Deallocate buf m =
     (if buf = 0 then (Ret (), m)
      else (case heap m buf of
              None \<Rightarrow> (Fault, m)
            | Some xs \<Rightarrow> (Ret (), m\<lparr>heap := (heap m)(buf := None), avail := avail m + length xs\<rparr>)))"

text \<open>\<^verbatim>\<open>delete[] buffer_\<close> (only in \<^verbatim>\<open>vector.h\<close>, in the move assignment of \<^verbatim>\<open>RawMemory\<close>):
  the operand of an array delete is the null pointer or the result of an array
  \<^verbatim>\<open>new\<close>; the blocks of \<open>Allocate\<close> come from \<^verbatim>\<open>operator new\<close>.\<close>

definition delete_array :: "block \<Rightarrow> 'a mem \<Rightarrow> unit outcome \<times> 'a mem" where
  "delete_array buf m = (if buf = 0 then (Ret (), m) else (Fault, m))"

definition RawMemory_default :: RawMemory where
  "RawMemory_default = \<lparr>buffer_m = 0, capacity_m = 0\<rparr>"

text \<open>\<^verbatim>\<open>explicit RawMemory(size_t capacity)\<close>\<close>

definition RawMemory_sized :: "nat \<Rightarrow> 'a mem \<Rightarrow> RawMemory outcome \<times> 'a mem" where
  "RawMemory_sized capacity m =
     (case Allocate capacity m of
        (Ret b, m') \<Rightarrow> (Ret \<lparr>buffer_m = b, capacity_m = capacity\<rparr>, m')
      | (Throw e, m') \<Rightarrow> (Throw e, m')
      | (Fault, m') \<Rightarrow> (Fault, m'))"

text \<open>\<^verbatim>\<open>~RawMemory()\<close>\<close>

definition RawMemory_dtor :: "RawMemory \<Rightarrow> 'a mem \<Rightarrow> unit outcome \<times> 'a mem" where
  "RawMemory_dtor r m = Deallocate (buffer_m r) m"

text \<open>\<^verbatim>\<open>Swap\<close> exchanges the two members of \<^verbatim>\<open>*this\<close> and \<^verbatim>\<open>other\<close>; the pair is
  (\<^verbatim>\<open>*this\<close>, \<^verbatim>\<open>other\<close>).\<close>

definition RawMemory_Swap :: "RawMemory \<times> RawMemory \<Rightarrow> RawMemory \<times> RawMemory" where
  "RawMemory_Swap p =
     (case p of (this, other) \<Rightarrow>
        (this\<lparr>buffer_m := buffer_m other, capacity_m := capacity_m other\<rparr>,
         other\<lparr>buffer_m := buffer_m this, capacity_m := capacity_m this\<rparr>))"

text \<open>The move constructor, in \<^verbatim>\<open>vector.h\<close> (the members are taken over, then the
  source is set to null and 0) and in \<^verbatim>\<open>part_000\<close> (default construction, then
  \<^verbatim>\<open>Swap(other)\<close>). The result is (the new object, \<^verbatim>\<open>other\<close>).\<close>

definition RawMemory_move_vector_h :: "RawMemory \<Rightarrow> RawMemory \<times> RawMemory" where
  "RawMemory_move_vector_h other =
     (\<lparr>buffer_m = buffer_m other, capacity_m = capacity_m other\<rparr>,
      other\<lparr>buffer_m := 0, capacity_m := 0\<rparr>)"

definition RawMemory_move_part_000 :: "RawMemory \<Rightarrow> RawMemory \<times> RawMemory" where
  "RawMemory_move_part_000 other = RawMemory_Swap (RawMemory_default, other)"

text \<open>
  The assignment operators compare \<^verbatim>\<open>this\<close> with the address of their argument, so
  they are embedded over a store of objects: \<open>this\<close> and \<open>other\<close> are addresses of
  objects in the store.
\<close>

type_synonym 'o store = "nat \<Rightarrow> 'o"

definition RawMemory_move_assign_part_000 :: "nat \<Rightarrow> nat \<Rightarrow> RawMemory store \<Rightarrow> RawMemory store" where
  "RawMemory_move_assign_part_000 this other st =
     (if this \<noteq> other then
        (case RawMemory_Swap (st this, st other) of
           (t', o') \<Rightarrow> st(this := t', other := o'))
      else st)"

definition RawMemory_move_assign_vector_h ::
  "nat \<Rightarrow> nat \<Rightarrow> RawMemory store \<times> 'a mem \<Rightarrow> unit outcome \<times> (RawMemory store \<times> 'a mem)" where
  "RawMemory_move_assign_vector_h this other s =
     (case s of (st, m) \<Rightarrow>
        if this \<noteq> other then
          (case delete_array (buffer_m (st this)) m of
             (Ret _, m') \<Rightarrow>
               (case RawMemory_Swap (st this, st other) of
                  (t', o') \<Rightarrow> (Ret (), (st(this := t', other := o'), m')))
           | (Throw e, m') \<Rightarrow> (Throw e, (st, m'))
           | (Fault, m') \<Rightarrow> (Fault, (st, m')))
        else (Ret (), (st, m)))"

definition RawMemory_plus :: "RawMemory \<Rightarrow> nat \<Rightarrow> ptr" where
  "RawMemory_plus r offset = (buffer_m r, offset)"

definition GetAddress :: "RawMemory \<Rightarrow> ptr" where
  "GetAddress r = (buffer_m r, 0)"

section \<open>Vector\<close>

record Vector =
  data_m :: RawMemory
  size_m :: nat

text \<open>At the end of a scope the destructor of a local object runs (its outcome is \<open>r\<close>)
  and the pending outcome \<open>x\<close>, a returned value or an exception in flight, goes on.\<close>

definition scope_exit :: "'r outcome \<Rightarrow> unit outcome \<times> 's \<Rightarrow> 'r outcome \<times> 's" where
  "scope_exit x r =
     (case r of
        (Ret _, s) \<Rightarrow> (x, s)
      | (Throw e', s) \<Rightarrow> (Throw e', s)
      | (Fault, s) \<Rightarrow> (Fault, s))"

text \<open>A member function works on the members of \<^verbatim>\<open>*this\<close> and on memory. \<open>with_this v r\<close>
  pairs the outcome \<open>r\<close> of a computation on memory with the members \<open>v\<close>.\<close>

definition with_this :: "Vector \<Rightarrow> 'r outcome \<times> 'a mem \<Rightarrow> 'r outcome \<times> (Vector \<times> 'a mem)" where
  "with_this v r = (case r of (x, m) \<Rightarrow> (x, (v, m)))"

text \<open>The destructor of a local \<^verbatim>\<open>T\<close> object.\<close>

definition destroy_local :: "'a mem \<Rightarrow> unit outcome \<times> 'a mem" where
  "destroy_local m = (Ret (), m\<lparr>dtor_calls := dtor_calls m + 1\<rparr>)"

definition Vector_default :: Vector where
  "Vector_default = \<lparr>data_m = RawMemory_default, size_m = 0\<rparr>"

definition Size :: "Vector \<Rightarrow> nat" where
  "Size v = size_m v"

definition Capacity :: "Vector \<Rightarrow> nat" where
  "Capacity v = capacity_m (data_m v)"

definition begin_it :: "Vector \<Rightarrow> ptr" where
  "begin_it v = GetAddress (data_m v)"

definition end_it :: "Vector \<Rightarrow> ptr" where
  "end_it v = ptr_add (GetAddress (data_m v)) (size_m v)"

text \<open>\<^verbatim>\<open>explicit Vector(size_t size)\<close>: when an element's constructor throws, the member
  \<^verbatim>\<open>data_\<close>, already constructed, is destroyed.\<close>

definition Vector_sized :: "'a elem_type \<Rightarrow> nat \<Rightarrow> 'a mem \<Rightarrow> Vector outcome \<times> 'a mem" where
  "Vector_sized T sz m =
     (case RawMemory_sized sz m of
        (Ret d, m1) \<Rightarrow>
          (case uninitialized_value_construct_n T (GetAddress d) sz m1 of
             (Ret _, m2) \<Rightarrow> (Ret \<lparr>data_m = d, size_m = sz\<rparr>, m2)
           | (Throw e, m2) \<Rightarrow> scope_exit (Throw e) (RawMemory_dtor d m2)
           | (Fault, m2) \<Rightarrow> (Fault, m2))
      | (Throw e, m1) \<Rightarrow> (Throw e, m1)
      | (Fault, m1) \<Rightarrow> (Fault, m1))"

text \<open>\<^verbatim>\<open>Vector(const Vector& other)\<close>\<close>

definition Vector_copy :: "'a elem_type \<Rightarrow> Vector \<Rightarrow> 'a mem \<Rightarrow> Vector outcome \<times> 'a mem" where
  "Vector_copy T other m =
     (case RawMemory_sized (size_m other) m of
        (Ret d, m1) \<Rightarrow>
          (case uninitialized_copy_n T (GetAddress (data_m other)) (size_m other) (GetAddress d) m1 of
             (Ret _, m2) \<Rightarrow> (Ret \<lparr>data_m = d, size_m = size_m other\<rparr>, m2)
           | (Throw e, m2) \<Rightarrow> scope_exit (Throw e) (RawMemory_dtor d m2)
           | (Fault, m2) \<Rightarrow> (Fault, m2))
      | (Throw e, m1) \<Rightarrow> (Throw e, m1)
      | (Fault, m1) \<Rightarrow> (Fault, m1))"

text \<open>\<^verbatim>\<open>Swap\<close>: the pair is (\<^verbatim>\<open>*this\<close>, \<^verbatim>\<open>other\<close>).\<close>

definition Swap :: "Vector \<times> Vector \<Rightarrow> Vector \<times> Vector" where
  "Swap p =
     (case p of (this, other) \<Rightarrow>
        (case RawMemory_Swap (data_m this, data_m other) of
           (d, od) \<Rightarrow>
             (this\<lparr>data_m := d, size_m := size_m other\<rparr>,
              other\<lparr>data_m := od, size_m := size_m this\<rparr>)))"

text \<open>\<^verbatim>\<open>Vector(Vector&& other) noexcept { Swap(other); }\<close>: the members of the new object
  have their default initialisers. The result is (the new object, \<^verbatim>\<open>other\<close>).\<close>

definition Vector_move :: "Vector \<Rightarrow> Vector \<times> Vector" where
  "Vector_move other = Swap (Vector_default, other)"

text \<open>\<^verbatim>\<open>~Vector()\<close>, followed by the destructor of the member \<^verbatim>\<open>data_\<close>.\<close>

definition Vector_dtor :: "Vector \<Rightarrow> 'a mem \<Rightarrow> unit outcome \<times> 'a mem" where
  "Vector_dtor v m =
     and_then (destroy_n (GetAddress (data_m v)) (size_m v)) (\<lambda>_. RawMemory_dtor (data_m v)) m"

text \<open>\<^verbatim>\<open>operator[]\<close> with its \<^verbatim>\<open>assert(index < size_)\<close>: the address of the element.\<close>

definition subscript :: "Vector \<Rightarrow> nat \<Rightarrow> ptr outcome" where
  "subscript v index = (if index < size_m v then Ret (RawMemory_plus (data_m v) index) else Fault)"



text \<open>\<^verbatim>\<open>PopBack\<close> of \<^verbatim>\<open>vector.h\<close>: \<^verbatim>\<open>data_[size_-1].~T(); --size_;\<close> with no test.\<close>

definition PopBack_vector_h :: "Vector \<times> 'a mem \<Rightarrow> unit outcome \<times> (Vector \<times> 'a mem)" where
  "PopBack_vector_h s =
     (case s of (v, m) \<Rightarrow>
        (case destroy_at (RawMemory_plus (data_m v) (size_t (int (size_m v) - 1))) m of
           (Ret _, m1) \<Rightarrow> (Ret (), (v\<lparr>size_m := size_t (int (size_m v) - 1)\<rparr>, m1))
         | (Throw e, m1) \<Rightarrow> (Throw e, (v, m1))
         | (Fault, m1) \<Rightarrow> (Fault, (v, m1))))"

text \<open>\<^verbatim>\<open>PopBack\<close> of \<^verbatim>\<open>part_000\<close>: the same two statements under \<^verbatim>\<open>if (size_ > 0)\<close>.\<close>

definition PopBack_part_000 :: "Vector \<times> 'a mem \<Rightarrow> unit outcome \<times> (Vector \<times> 'a mem)" where
  "PopBack_part_000 s =
     (case s of (v, m) \<Rightarrow>
        if size_m v > 0 then
          (case destroy_at (RawMemory_plus (data_m v) (size_t (int (size_m v) - 1))) m of
             (Ret _, m1) \<Rightarrow> (Ret (), (v\<lparr>size_m := size_t (int (size_m v) - 1)\<rparr>, m1))
           | (Throw e, m1) \<Rightarrow> (Throw e, (v, m1))
           | (Fault, m1) \<Rightarrow> (Fault, (v, m1)))
        else (Ret (), (v, m)))"

text \<open>\<^verbatim>\<open>EmplaceBack\<close>, the same in both drafts. It returns the address of the new
  element.\<close>

definition EmplaceBack :: "'a elem_type \<Rightarrow> 'a init \<Rightarrow> Vector \<times> 'a mem \<Rightarrow> ptr outcome \<times> (Vector \<times> 'a mem)" where
  "EmplaceBack T args s =
     (case s of (v, m) \<Rightarrow>
        if size_m v = Capacity v then
          (case RawMemory_sized (if size_m v = 0 then 1 else size_t (int (size_m v) * 2)) m of
             (Ret new_data, m1) \<Rightarrow>
               (case and_then (construct_at T (RawMemory_plus new_data (size_m v)) args)
                      (\<lambda>_. and_then
                         (if nothrow_move_constructible T \<or> \<not> copy_constructible T
                          then uninitialized_move_n T (GetAddress (data_m v)) (size_m v) (GetAddress new_data)
                          else uninitialized_copy_n T (GetAddress (data_m v)) (size_m v) (GetAddress new_data))
                      (\<lambda>_. destroy_n (GetAddress (data_m v)) (size_m v))) m1 of
                  (Ret _, m2) \<Rightarrow>
                    (case RawMemory_Swap (data_m v, new_data) of
                       (d, new_data') \<Rightarrow>
                         with_this (v\<lparr>data_m := d, size_m := size_t (int (size_m v) + 1)\<rparr>)
                           (scope_exit (Ret (RawMemory_plus d (size_t (int (size_t (int (size_m v) + 1)) - 1))))
                              (RawMemory_dtor new_data' m2)))
                | (Throw e, m2) \<Rightarrow> with_this v (scope_exit (Throw e) (RawMemory_dtor new_data m2))
                | (Fault, m2) \<Rightarrow> (Fault, (v, m2)))
           | (Throw e, m1) \<Rightarrow> (Throw e, (v, m1))
           | (Fault, m1) \<Rightarrow> (Fault, (v, m1)))
        else
          (case construct_at T (RawMemory_plus (data_m v) (size_m v)) args m of
             (Ret _, m1) \<Rightarrow>
               (Ret (RawMemory_plus (data_m v) (size_t (int (size_t (int (size_m v) + 1)) - 1))),
                (v\<lparr>size_m := size_t (int (size_m v) + 1)\<rparr>, m1))
           | (Throw e, m1) \<Rightarrow> (Throw e, (v, m1))
           | (Fault, m1) \<Rightarrow> (Fault, (v, m1))))"

text \<open>\<^verbatim>\<open>PushBack\<close> of \<^verbatim>\<open>vector.h\<close>: its two overloads repeat the statements of
  \<^verbatim>\<open>EmplaceBack\<close>, with \<^verbatim>\<open>T(value)\<close> (\<open>Copy value\<close>) and \<^verbatim>\<open>T(std::move(value))\<close>
  (\<open>Move value\<close>) for the new element, and return nothing.\<close>

definition PushBack_vector_h :: "'a elem_type \<Rightarrow> 'a init \<Rightarrow> Vector \<times> 'a mem \<Rightarrow> unit outcome \<times> (Vector \<times> 'a mem)" where
  "PushBack_vector_h T val s =
     (case s of (v, m) \<Rightarrow>
        if size_m v = Capacity v then
          (case RawMemory_sized (if size_m v = 0 then 1 else size_t (int (size_m v) * 2)) m of
             (Ret new_data, m1) \<Rightarrow>
               (case and_then (construct_at T (RawMemory_plus new_data (size_m v)) val)
                      (\<lambda>_. and_then
                         (if nothrow_move_constructible T \<or> \<not> copy_constructible T
                          then uninitialized_move_n T (GetAddress (data_m v)) (size_m v) (GetAddress new_data)
                          else uninitialized_copy_n T (GetAddress (data_m v)) (size_m v) (GetAddress new_data))
                      (\<lambda>_. destroy_n (GetAddress (data_m v)) (size_m v))) m1 of
                  (Ret _, m2) \<Rightarrow>
                    (case RawMemory_Swap (data_m v, new_data) of
                       (d, new_data') \<Rightarrow>
                         with_this (v\<lparr>data_m := d, size_m := size_t (int (size_m v) + 1)\<rparr>)
                           (scope_exit (Ret ()) (RawMemory_dtor new_data' m2)))
                | (Throw e, m2) \<Rightarrow> with_this v (scope_exit (Throw e) (RawMemory_dtor new_data m2))
                | (Fault, m2) \<Rightarrow> (Fault, (v, m2)))
           | (Throw e, m1) \<Rightarrow> (Throw e, (v, m1))
           | (Fault, m1) \<Rightarrow> (Fault, (v, m1)))
        else
          (case construct_at T (RawMemory_plus (data_m v) (size_m v)) val m of
             (Ret _, m1) \<Rightarrow> (Ret (), (v\<lparr>size_m := size_t (int (size_m v) + 1)\<rparr>, m1))
           | (Throw e, m1) \<Rightarrow> (Throw e, (v, m1))
           | (Fault, m1) \<Rightarrow> (Fault, (v, m1))))"

text \<open>\<^verbatim>\<open>PushBack\<close> of \<^verbatim>\<open>part_000\<close> calls \<^verbatim>\<open>EmplaceBack\<close> and drops the reference.\<close>

definition PushBack_part_000 :: "'a elem_type \<Rightarrow> 'a init \<Rightarrow> Vector \<times> 'a mem \<Rightarrow> unit outcome \<times> (Vector \<times> 'a mem)" where
  "PushBack_part_000 T val s =
     (case EmplaceBack T val s of
        (Ret _, s') \<Rightarrow> (Ret (), s')
      | (Throw e, s') \<Rightarrow> (Throw e, s')
      | (Fault, s') \<Rightarrow> (Fault, s'))"

text \<open>Pointers are compared within one block.\<close>

definition ptr_le :: "ptr \<Rightarrow> ptr \<Rightarrow> bool" where
  "ptr_le p q \<longleftrightarrow> fst p = fst q \<and> snd p \<le> snd q"

definition ptr_less :: "ptr \<Rightarrow> ptr \<Rightarrow> bool" where
  "ptr_less p q \<longleftrightarrow> fst p = fst q \<and> snd p < snd q"

text \<open>
  \<^verbatim>\<open>Emplace\<close> as \<^verbatim>\<open>vector.h\<close> has it. When the vector is full the new element is
  constructed in a new block first and the elements before and after \<open>index\<close> are
  relocated around it, each relocation under its own handler. Otherwise a temporary is
  built, the last element is move-constructed into the slot behind it, the elements
  from \<open>index\<close> on are moved one slot back, and the temporary is moved into its place.
\<close>

definition Emplace_vector_h :: "'a elem_type \<Rightarrow> ptr \<Rightarrow> 'a init \<Rightarrow> Vector \<times> 'a mem \<Rightarrow> ptr outcome \<times> (Vector \<times> 'a mem)" where
  "Emplace_vector_h T pos args s =
     (case s of (v, m) \<Rightarrow>
        (case ptr_diff pos (GetAddress (data_m v)) of
           None \<Rightarrow> (Fault, (v, m))
         | Some index \<Rightarrow>
             if size_m v = Capacity v then
               (case RawMemory_sized (if size_m v = 0 then 1 else size_t (int (size_m v) * 2)) m of
                  (Ret new_data, m1) \<Rightarrow>
                    (case and_then (construct_at T (RawMemory_plus new_data index) (args))
                           (\<lambda>_. and_then
                              (if nothrow_move_constructible T \<or> \<not> copy_constructible T
                               then
                                 and_then
                                   (try_catch_rethrow
                                      (uninitialized_move_n T (GetAddress (data_m v)) index (GetAddress new_data))
                                      (destroy_at (RawMemory_plus new_data index)))
                                   (\<lambda>_. try_catch_rethrow
                                      (uninitialized_move_n T (RawMemory_plus (data_m v) index)
                                         (size_t (int (size_m v) - int index))
                                         (RawMemory_plus new_data (size_t (int index + 1))))
                                      (destroy_n (GetAddress new_data) (size_t (int index + 1))))
                               else
                                 and_then
                                   (try_catch_rethrow
                                      (uninitialized_copy_n T (GetAddress (data_m v)) index (GetAddress new_data))
                                      (destroy_at (RawMemory_plus new_data index)))
                                   (\<lambda>_. try_catch_rethrow
                                      (uninitialized_copy_n T (RawMemory_plus (data_m v) index)
                                         (size_t (int (size_m v) - int index))
                                         (RawMemory_plus new_data (size_t (int index + 1))))
                                      (destroy_n (GetAddress new_data) (size_t (int index + 1)))))
                           (\<lambda>_. destroy_n (GetAddress (data_m v)) (size_m v))) m1 of
                       (Ret _, m2) \<Rightarrow>
                         (case RawMemory_Swap (data_m v, new_data) of
                            (d, new_data') \<Rightarrow>
                              with_this (v\<lparr>data_m := d, size_m := size_t (int (size_m v) + 1)\<rparr>)
                                (scope_exit (Ret (RawMemory_plus d index)) (RawMemory_dtor new_data' m2)))
                     | (Throw e, m2) \<Rightarrow> with_this v (scope_exit (Throw e) (RawMemory_dtor new_data m2))
                     | (Fault, m2) \<Rightarrow> (Fault, (v, m2)))
                | (Throw e, m1) \<Rightarrow> (Throw e, (v, m1))
                | (Fault, m1) \<Rightarrow> (Fault, (v, m1)))
             else
               (case run_constructor T (args) m of
                  (Ret temp_value, m1) \<Rightarrow>
                    (case and_then
                            (move_construct_at T
                               (RawMemory_plus (data_m v) (size_t (int (size_m v) - 1)))
                               (RawMemory_plus (data_m v) (size_m v)))
                           (\<lambda>_. and_then (ptr_dec (RawMemory_plus (data_m v) (size_m v)))
                           (\<lambda>lst. and_then
                              (std_move_backward T (RawMemory_plus (data_m v) index) lst
                                 (RawMemory_plus (data_m v) (size_m v)))
                           (\<lambda>_. move_assign_from T temp_value (RawMemory_plus (data_m v) index)))) m1 of
                       (Ret _, m2) \<Rightarrow>
                         with_this (v\<lparr>size_m := size_t (int (size_m v) + 1)\<rparr>)
                           (scope_exit (Ret (RawMemory_plus (data_m v) index)) (destroy_local m2))
                     | (Throw e, m2) \<Rightarrow> with_this v (scope_exit (Throw e) (destroy_local m2))
                     | (Fault, m2) \<Rightarrow> (Fault, (v, m2)))
                | (Throw e, m1) \<Rightarrow> (Throw e, (v, m1))
                | (Fault, m1) \<Rightarrow> (Fault, (v, m1)))))"

text \<open>\<^verbatim>\<open>Emplace\<close> of \<^verbatim>\<open>part_000\<close>: the same statements behind
  \<^verbatim>\<open>assert(pos >= begin() && pos < end())\<close>.\<close>

definition Emplace_part_000 :: "'a elem_type \<Rightarrow> ptr \<Rightarrow> 'a init \<Rightarrow> Vector \<times> 'a mem \<Rightarrow> ptr outcome \<times> (Vector \<times> 'a mem)" where
  "Emplace_part_000 T pos args s =
     (case s of (v, m) \<Rightarrow>
        if ptr_le (begin_it v) pos \<and> ptr_less pos (end_it v)
        then Emplace_vector_h T pos args (v, m)
        else (Fault, (v, m)))"

text \<open>\<^verbatim>\<open>Erase\<close> in the two drafts: \<^verbatim>\<open>part_000\<close> asserts that \<^verbatim>\<open>pos\<close> is in range, and each
  draft calls its own \<^verbatim>\<open>PopBack\<close>.\<close>

definition Erase_vector_h :: "'a elem_type \<Rightarrow> ptr \<Rightarrow> Vector \<times> 'a mem \<Rightarrow> ptr outcome \<times> (Vector \<times> 'a mem)" where
  "Erase_vector_h T pos s =
     (case s of (v, m) \<Rightarrow>
        (case ptr_diff pos (GetAddress (data_m v)) of
           None \<Rightarrow> (Fault, (v, m))
         | Some index \<Rightarrow>
             (case std_move T (RawMemory_plus (data_m v) (size_t (int index + 1)))
                     (RawMemory_plus (data_m v) (size_m v)) (RawMemory_plus (data_m v) index) m of
                (Ret _, m1) \<Rightarrow>
                  (case PopBack_vector_h (v, m1) of
                     (Ret _, (v2, m2)) \<Rightarrow> (Ret (RawMemory_plus (data_m v2) index), (v2, m2))
                   | (Throw e, s') \<Rightarrow> (Throw e, s')
                   | (Fault, s') \<Rightarrow> (Fault, s'))
              | (Throw e, m1) \<Rightarrow> (Throw e, (v, m1))
              | (Fault, m1) \<Rightarrow> (Fault, (v, m1)))))"

definition Erase_part_000 :: "'a elem_type \<Rightarrow> ptr \<Rightarrow> Vector \<times> 'a mem \<Rightarrow> ptr outcome \<times> (Vector \<times> 'a mem)" where
  "Erase_part_000 T pos s =
     (case s of (v, m) \<Rightarrow>
        if ptr_le (begin_it v) pos \<and> ptr_less pos (end_it v) then
          (case ptr_diff pos (GetAddress (data_m v)) of
             None \<Rightarrow> (Fault, (v, m))
           | Some index \<Rightarrow>
               (case std_move T (RawMemory_plus (data_m v) (size_t (int index + 1)))
                       (RawMemory_plus (data_m v) (size_m v)) (RawMemory_plus (data_m v) index) m of
                  (Ret _, m1) \<Rightarrow>
                    (case PopBack_part_000 (v, m1) of
                       (Ret _, (v2, m2)) \<Rightarrow> (Ret (RawMemory_plus (data_m v2) index), (v2, m2))
                     | (Throw e, s') \<Rightarrow> (Throw e, s')
                     | (Fault, s') \<Rightarrow> (Fault, s'))
                | (Throw e, m1) \<Rightarrow> (Throw e, (v, m1))
                | (Fault, m1) \<Rightarrow> (Fault, (v, m1))))
        else (Fault, (v, m)))"

text \<open>
  \<^verbatim>\<open>Insert(const_iterator, const T&)\<close> of \<^verbatim>\<open>vector.h\<close> repeats the statements of
  \<^verbatim>\<open>Emplace\<close>. The new element is \<^verbatim>\<open>T(std::move(value))\<close> for a \<^verbatim>\<open>const T&\<close>, which
  selects the copy constructor, and the temporary is \<^verbatim>\<open>T temp_value(value)\<close>.
\<close>

definition Insert_copy_vector_h :: "'a elem_type \<Rightarrow> ptr \<Rightarrow> 'a \<Rightarrow> Vector \<times> 'a mem \<Rightarrow> ptr outcome \<times> (Vector \<times> 'a mem)" where
  "Insert_copy_vector_h T pos val s =
     (case s of (v, m) \<Rightarrow>
        (case ptr_diff pos (GetAddress (data_m v)) of
           None \<Rightarrow> (Fault, (v, m))
         | Some index \<Rightarrow>
             if size_m v = Capacity v then
               (case RawMemory_sized (if size_m v = 0 then 1 else size_t (int (size_m v) * 2)) m of
                  (Ret new_data, m1) \<Rightarrow>
                    (case and_then (construct_at T (RawMemory_plus new_data index) (Copy val))
                           (\<lambda>_. and_then
                              (if nothrow_move_constructible T \<or> \<not> copy_constructible T
                               then
                                 and_then
                                   (try_catch_rethrow
                                      (uninitialized_move_n T (GetAddress (data_m v)) index (GetAddress new_data))
                                      (destroy_at (RawMemory_plus new_data index)))
                                   (\<lambda>_. try_catch_rethrow
                                      (uninitialized_move_n T (RawMemory_plus (data_m v) index)
                                         (size_t (int (size_m v) - int index))
                                         (RawMemory_plus new_data (size_t (int index + 1))))
                                      (destroy_n (GetAddress new_data) (size_t (int index + 1))))
                               else
                                 and_then
                                   (try_catch_rethrow
                                      (uninitialized_copy_n T (GetAddress (data_m v)) index (GetAddress new_data))
                                      (destroy_at (RawMemory_plus new_data index)))
                                   (\<lambda>_. try_catch_rethrow
                                      (uninitialized_copy_n T (RawMemory_plus (data_m v) index)
                                         (size_t (int (size_m v) - int index))
                                         (RawMemory_plus new_data (size_t (int index + 1))))
                                      (destroy_n (GetAddress new_data) (size_t (int index + 1)))))
                           (\<lambda>_. destroy_n (GetAddress (data_m v)) (size_m v))) m1 of
                       (Ret _, m2) \<Rightarrow>
                         (case RawMemory_Swap (data_m v, new_data) of
                            (d, new_data') \<Rightarrow>
                              with_this (v\<lparr>data_m := d, size_m := size_t (int (size_m v) + 1)\<rparr>)
                                (scope_exit (Ret (RawMemory_plus d index)) (RawMemory_dtor new_data' m2)))
                     | (Throw e, m2) \<Rightarrow> with_this v (scope_exit (Throw e) (RawMemory_dtor new_data m2))
                     | (Fault, m2) \<Rightarrow> (Fault, (v, m2)))
                | (Throw e, m1) \<Rightarrow> (Throw e, (v, m1))
                | (Fault, m1) \<Rightarrow> (Fault, (v, m1)))
             else
               (case run_constructor T (Copy val) m of
                  (Ret temp_value, m1) \<Rightarrow>
                    (case and_then
                            (move_construct_at T
                               (RawMemory_plus (data_m v) (size_t (int (size_m v) - 1)))
                               (RawMemory_plus (data_m v) (size_m v)))
                           (\<lambda>_. and_then (ptr_dec (RawMemory_plus (data_m v) (size_m v)))
                           (\<lambda>lst. and_then
                              (std_move_backward T (RawMemory_plus (data_m v) index) lst
                                 (RawMemory_plus (data_m v) (size_m v)))
                           (\<lambda>_. move_assign_from T temp_value (RawMemory_plus (data_m v) index)))) m1 of
                       (Ret _, m2) \<Rightarrow>
                         with_this (v\<lparr>size_m := size_t (int (size_m v) + 1)\<rparr>)
                           (scope_exit (Ret (RawMemory_plus (data_m v) index)) (destroy_local m2))
                     | (Throw e, m2) \<Rightarrow> with_this v (scope_exit (Throw e) (destroy_local m2))
                     | (Fault, m2) \<Rightarrow> (Fault, (v, m2)))
                | (Throw e, m1) \<Rightarrow> (Throw e, (v, m1))
                | (Fault, m1) \<Rightarrow> (Fault, (v, m1)))))"

text \<open>
  \<^verbatim>\<open>Insert(const_iterator, T&&)\<close> of \<^verbatim>\<open>vector.h\<close>: here both relocations stand in one
  \<^verbatim>\<open>try\<close> block whose handler is \<^verbatim>\<open>std::destroy_n(new_data.GetAddress() + index, 1)\<close>.
\<close>

definition Insert_move_vector_h :: "'a elem_type \<Rightarrow> ptr \<Rightarrow> 'a \<Rightarrow> Vector \<times> 'a mem \<Rightarrow> ptr outcome \<times> (Vector \<times> 'a mem)" where
  "Insert_move_vector_h T pos val s =
     (case s of (v, m) \<Rightarrow>
        (case ptr_diff pos (GetAddress (data_m v)) of
           None \<Rightarrow> (Fault, (v, m))
         | Some index \<Rightarrow>
             if size_m v = Capacity v then
               (case RawMemory_sized (if size_m v = 0 then 1 else size_t (int (size_m v) * 2)) m of
                  (Ret new_data, m1) \<Rightarrow>
                    (case and_then (construct_at T (RawMemory_plus new_data index) (Move val))
                           (\<lambda>_. and_then
                              (if nothrow_move_constructible T \<or> \<not> copy_constructible T
                               then
                                 try_catch_rethrow
                                   (and_then
                                      (uninitialized_move_n T (begin_it v) index (GetAddress new_data))
                                      (\<lambda>_. uninitialized_move_n T (ptr_add (begin_it v) index)
                                         (size_t (int (size_m v) - int index))
                                         (ptr_add (ptr_add (GetAddress new_data) index) 1)))
                                   (destroy_n (ptr_add (GetAddress new_data) index) 1)
                               else
                                 try_catch_rethrow
                                   (and_then
                                      (uninitialized_copy_n T (begin_it v) index (GetAddress new_data))
                                      (\<lambda>_. uninitialized_copy_n T (ptr_add (begin_it v) index)
                                         (size_t (int (size_m v) - int index))
                                         (ptr_add (ptr_add (GetAddress new_data) index) 1)))
                                   (destroy_n (ptr_add (GetAddress new_data) index) 1))
                           (\<lambda>_. destroy_n (GetAddress (data_m v)) (size_m v))) m1 of
                       (Ret _, m2) \<Rightarrow>
                         (case RawMemory_Swap (data_m v, new_data) of
                            (d, new_data') \<Rightarrow>
                              with_this (v\<lparr>data_m := d, size_m := size_t (int (size_m v) + 1)\<rparr>)
                                (scope_exit (Ret (RawMemory_plus d index)) (RawMemory_dtor new_data' m2)))
                     | (Throw e, m2) \<Rightarrow> with_this v (scope_exit (Throw e) (RawMemory_dtor new_data m2))
                     | (Fault, m2) \<Rightarrow> (Fault, (v, m2)))
                | (Throw e, m1) \<Rightarrow> (Throw e, (v, m1))
                | (Fault, m1) \<Rightarrow> (Fault, (v, m1)))
             else
               (case run_constructor T (Move val) m of
                  (Ret temp_value, m1) \<Rightarrow>
                    (case and_then
                            (move_construct_at T
                               (RawMemory_plus (data_m v) (size_t (int (size_m v) - 1)))
                               (RawMemory_plus (data_m v) (size_m v)))
                           (\<lambda>_. and_then (ptr_dec (RawMemory_plus (data_m v) (size_m v)))
                           (\<lambda>lst. and_then
                              (std_move_backward T (RawMemory_plus (data_m v) index) lst
                                 (RawMemory_plus (data_m v) (size_m v)))
                           (\<lambda>_. move_assign_from T temp_value (RawMemory_plus (data_m v) index)))) m1 of
                       (Ret _, m2) \<Rightarrow>
                         with_this (v\<lparr>size_m := size_t (int (size_m v) + 1)\<rparr>)
                           (scope_exit (Ret (RawMemory_plus (data_m v) index)) (destroy_local m2))
                     | (Throw e, m2) \<Rightarrow> with_this v (scope_exit (Throw e) (destroy_local m2))
                     | (Fault, m2) \<Rightarrow> (Fault, (v, m2)))
                | (Throw e, m1) \<Rightarrow> (Throw e, (v, m1))
                | (Fault, m1) \<Rightarrow> (Fault, (v, m1)))))"

text \<open>\<^verbatim>\<open>Insert\<close> of \<^verbatim>\<open>part_000\<close>: \<^verbatim>\<open>return Emplace(pos, value)\<close> and
  \<^verbatim>\<open>return Emplace(pos, std::move(value))\<close>.\<close>

definition Insert_copy_part_000 :: "'a elem_type \<Rightarrow> ptr \<Rightarrow> 'a \<Rightarrow> Vector \<times> 'a mem \<Rightarrow> ptr outcome \<times> (Vector \<times> 'a mem)" where
  "Insert_copy_part_000 T pos val s = Emplace_part_000 T pos (Copy val) s"

definition Insert_move_part_000 :: "'a elem_type \<Rightarrow> ptr \<Rightarrow> 'a \<Rightarrow> Vector \<times> 'a mem \<Rightarrow> ptr outcome \<times> (Vector \<times> 'a mem)" where
  "Insert_move_part_000 T pos val s = Emplace_part_000 T pos (Move val) s"

text \<open>
  Copy assignment, \<^verbatim>\<open>operator=(const Vector& rhs)\<close>, over a store of \<^verbatim>\<open>Vector\<close> objects.
  In \<^verbatim>\<open>vector.h\<close> the overwriting path is written with \<^verbatim>\<open>for\<close> loops over
  \<^verbatim>\<open>data_[i] = rhs.data_[i]\<close> and \<^verbatim>\<open>data_[i].~T()\<close>; in \<^verbatim>\<open>part_000\<close> it is the private
  member \<^verbatim>\<open>Copy\<close>, written with \<^verbatim>\<open>std::copy\<close> and \<^verbatim>\<open>std::destroy_n\<close>.
\<close>

definition copy_assign_vector_h ::
  "'a elem_type \<Rightarrow> nat \<Rightarrow> nat \<Rightarrow> Vector store \<times> 'a mem \<Rightarrow> unit outcome \<times> (Vector store \<times> 'a mem)" where
  "copy_assign_vector_h T this rhs s =
     (case s of (st, m) \<Rightarrow>
        if this \<noteq> rhs then
          (if size_m (st rhs) > capacity_m (data_m (st this)) then
             (case Vector_copy T (st rhs) m of
                (Ret rhs_copy, m1) \<Rightarrow>
                  (case Swap (st this, rhs_copy) of
                     (this', rhs_copy') \<Rightarrow>
                       (case Vector_dtor rhs_copy' m1 of
                          (r, m2) \<Rightarrow> (r, (st(this := this'), m2))))
              | (Throw e, m1) \<Rightarrow> (Throw e, (st, m1))
              | (Fault, m1) \<Rightarrow> (Fault, (st, m1)))
           else
             (case (if size_m (st rhs) < size_m (st this) then
                      and_then
                        (copy_loop T (RawMemory_plus (data_m (st rhs)) 0) (size_m (st rhs))
                           (RawMemory_plus (data_m (st this)) 0))
                        (\<lambda>_. destroy_n (RawMemory_plus (data_m (st this)) (size_m (st rhs)))
                           (size_m (st this) - size_m (st rhs)))
                    else if size_m (st rhs) \<ge> size_m (st this) then
                      and_then
                        (copy_loop T (RawMemory_plus (data_m (st rhs)) 0) (size_m (st this))
                           (RawMemory_plus (data_m (st this)) 0))
                        (\<lambda>_. uninitialized_copy_n T
                           (RawMemory_plus (data_m (st rhs)) (size_m (st this)))
                           (size_m (st rhs) - size_m (st this))
                           (RawMemory_plus (data_m (st this)) (size_m (st this))))
                    else (\<lambda>m. (Ret (), m))) m of
                (Ret _, m1) \<Rightarrow> (Ret (), (st(this := (st this)\<lparr>size_m := size_m (st rhs)\<rparr>), m1))
              | (Throw e, m1) \<Rightarrow> (Throw e, (st, m1))
              | (Fault, m1) \<Rightarrow> (Fault, (st, m1))))
        else (Ret (), (st, m)))"

definition Copy_part_000 :: "'a elem_type \<Rightarrow> Vector \<Rightarrow> Vector \<times> 'a mem \<Rightarrow> unit outcome \<times> (Vector \<times> 'a mem)" where
  "Copy_part_000 T rhs s =
     (case s of (v, m) \<Rightarrow>
        (case (if size_m rhs < size_m v then
                 and_then
                   (std_copy T (GetAddress (data_m rhs)) (ptr_add (GetAddress (data_m rhs)) (size_m rhs))
                      (GetAddress (data_m v)))
                   (\<lambda>_. destroy_n (ptr_add (GetAddress (data_m v)) (size_m rhs)) (size_m v - size_m rhs))
               else
                 and_then
                   (std_copy T (GetAddress (data_m rhs)) (ptr_add (GetAddress (data_m rhs)) (size_m v))
                      (GetAddress (data_m v)))
                   (\<lambda>_. uninitialized_copy_n T (ptr_add (GetAddress (data_m rhs)) (size_m v))
                      (size_m rhs - size_m v) (ptr_add (GetAddress (data_m v)) (size_m v)))) m of
           (Ret _, m1) \<Rightarrow> (Ret (), (v\<lparr>size_m := size_m rhs\<rparr>, m1))
         | (Throw e, m1) \<Rightarrow> (Throw e, (v, m1))
         | (Fault, m1) \<Rightarrow> (Fault, (v, m1))))"

definition copy_assign_part_000 ::
  "'a elem_type \<Rightarrow> nat \<Rightarrow> nat \<Rightarrow> Vector store \<times> 'a mem \<Rightarrow> unit outcome \<times> (Vector store \<times> 'a mem)" where
  "copy_assign_part_000 T this rhs s =
     (case s of (st, m) \<Rightarrow>
        if this \<noteq> rhs then
          (if size_m (st rhs) > capacity_m (data_m (st this)) then
             (case Vector_copy T (st rhs) m of
                (Ret rhs_copy, m1) \<Rightarrow>
                  (case Swap (st this, rhs_copy) of
                     (this', rhs_copy') \<Rightarrow>
                       (case Vector_dtor rhs_copy' m1 of
                          (r, m2) \<Rightarrow> (r, (st(this := this'), m2))))
              | (Throw e, m1) \<Rightarrow> (Throw e, (st, m1))
              | (Fault, m1) \<Rightarrow> (Fault, (st, m1)))
           else
             (case Copy_part_000 T (st rhs) (st this, m) of
                (r, (this', m1)) \<Rightarrow> (r, (st(this := this'), m1))))
        else (Ret (), (st, m)))"

text \<open>Move assignment, \<^verbatim>\<open>operator=(Vector&& rhs) noexcept\<close>, the same in both drafts.\<close>

definition move_assign :: "nat \<Rightarrow> nat \<Rightarrow> Vector store \<Rightarrow> Vector store" where
  "move_assign this rhs st =
     (if this \<noteq> rhs then
        (case Swap (st this, st rhs) of
           (this', rhs') \<Rightarrow> st(this := this', rhs := rhs'))
      else st)"

text \<open>What a caller can observe of the elements: the slot behind each index below
  \<^verbatim>\<open>size_\<close>.\<close>

definition elements :: "Vector \<Rightarrow> 'a mem \<Rightarrow> 'a option option list" where
  "elements v m = map (\<lambda>i. slot m (RawMemory_plus (data_m v) i)) [0..<size_m v]"

section \<open>Well-formed states and examples\<close>

text \<open>
  A block of capacity \<open>c\<close> that holds the live elements \<open>xs\<close> in its first slots and raw
  storage behind them.
\<close>

definition block_of :: "'a list \<Rightarrow> nat \<Rightarrow> 'a option list" where
  "block_of xs c = map Some xs @ replicate (c - length xs) None"

text \<open>
  The class invariant of \<^verbatim>\<open>Vector\<close>: \<open>represents v m xs\<close> says that in memory \<open>m\<close> the
  vector \<open>v\<close> holds exactly the elements \<open>xs\<close>. Its buffer is null when the capacity is 0
  and otherwise a block of \<^verbatim>\<open>capacity_\<close> slots, of which the first \<^verbatim>\<open>size_\<close> are live.
\<close>

definition represents :: "Vector \<Rightarrow> 'a mem \<Rightarrow> 'a list \<Rightarrow> bool" where
  "represents v m xs \<longleftrightarrow>
     size_m v = length xs \<and> length xs \<le> capacity_m (data_m v) \<and>
     (if capacity_m (data_m v) = 0 then buffer_m (data_m v) = 0
      else buffer_m (data_m v) \<noteq> 0 \<and>
           heap m (buffer_m (data_m v)) = Some (block_of xs (capacity_m (data_m v))))"

text \<open>The allocator's invariant: the null pointer is no block, the blocks not yet
  handed out are not allocated, an object has at least one byte, and the number of
  bytes of every block is a value of \<^verbatim>\<open>size_t\<close>.\<close>

definition wf_mem :: "'a mem \<Rightarrow> bool" where
  "wf_mem m \<longleftrightarrow>
     heap m 0 = None \<and> 0 < brk m \<and> (\<forall>b. brk m \<le> b \<longrightarrow> heap m b = None) \<and>
     0 < sizeof_T m \<and> (\<forall>b xs. heap m b = Some xs \<longrightarrow> length xs * sizeof_T m < 2 ^ 64)"

text \<open>Memory for elements of 4 bytes (an \<^verbatim>\<open>int\<close>, or a class with one \<^verbatim>\<open>int\<close> member), with no
  block allocated, \<open>n\<close> slots available and all counters at 0.\<close>

definition empty_mem :: "nat \<Rightarrow> int mem" where
  "empty_mem n =
     \<lparr>heap = (\<lambda>_. None), brk = 1, avail = n, sizeof_T = 4, ctor_calls = 0, default_ctor_calls = 0,
      copy_ctor_calls = 0, move_ctor_calls = 0, copy_assign_calls = 0, move_assign_calls = 0,
      dtor_calls = 0\<rparr>"

text \<open>An element type like \<^verbatim>\<open>int\<close>: nothing throws, a moved-from object keeps its value.\<close>

definition int_type :: "int elem_type" where
  "int_type =
     \<lparr>nothrow_move_constructible = True, copy_constructible = True, default_value = Some 0,
      copy_throws = (\<lambda>_. False), move_throws = (\<lambda>_. False), copy_assign_throws = (\<lambda>_. False),
      move_assign_throws = (\<lambda>_. False), moved_from = (\<lambda>x. x)\<rparr>"

text \<open>Two \<^verbatim>\<open>RawMemory\<close> objects at the addresses 0 and 1 of a store, and two vectors
  \<open>[1, 2]\<close> and \<open>[3]\<close> at the addresses 0 and 1 of a store, with their memory.\<close>

definition two_raw :: "RawMemory store" where
  "two_raw =
     (\<lambda>_. RawMemory_default)
       (0 := \<lparr>buffer_m = 1, capacity_m = 2\<rparr>, 1 := \<lparr>buffer_m = 2, capacity_m = 3\<rparr>)"

definition two_vectors :: "Vector store" where
  "two_vectors =
     (\<lambda>_. Vector_default)
       (0 := \<lparr>data_m = \<lparr>buffer_m = 1, capacity_m = 2\<rparr>, size_m = 2\<rparr>,
        1 := \<lparr>data_m = \<lparr>buffer_m = 2, capacity_m = 3\<rparr>, size_m = 1\<rparr>)"

definition two_vectors_mem :: "int mem" where
  "two_vectors_mem =
     (empty_mem 10)
       \<lparr>heap := (\<lambda>_. None)(1 := Some [Some 1, Some 2], 2 := Some [Some 3, None, None]),
        brk := 3\<rparr>"

text \<open>
  An element type whose copy and move operations throw for negative values. It is
  copy-constructible and its move constructor is not \<^verbatim>\<open>noexcept\<close>, so it is relocated by
  copy. A moved-from object has the value 0.
\<close>

definition fragile_type :: "int elem_type" where
  "fragile_type =
     \<lparr>nothrow_move_constructible = False, copy_constructible = True, default_value = Some 0,
      copy_throws = (\<lambda>x. x < 0), move_throws = (\<lambda>x. x < 0), copy_assign_throws = (\<lambda>x. x < 0),
      move_assign_throws = (\<lambda>x. x < 0), moved_from = (\<lambda>_. 0)\<rparr>"

text \<open>
  A move-only element type: it has no copy constructor, and its move constructor is not
  \<^verbatim>\<open>noexcept\<close> and throws for negative values, so it is relocated by move.
\<close>

definition move_only_type :: "int elem_type" where
  "move_only_type =
     \<lparr>nothrow_move_constructible = False, copy_constructible = False, default_value = Some 0,
      copy_throws = (\<lambda>_. True), move_throws = (\<lambda>x. x < 0), copy_assign_throws = (\<lambda>_. True),
      move_assign_throws = (\<lambda>x. x < 0), moved_from = (\<lambda>_. 0)\<rparr>"

text \<open>What a caller sees after a call: whether it returned, \<^verbatim>\<open>Size()\<close>, \<^verbatim>\<open>Capacity()\<close>
  and the elements.\<close>

definition observe :: "'r outcome \<times> (Vector \<times> 'a mem) \<Rightarrow> bool \<times> nat \<times> nat \<times> 'a option option list" where
  "observe r =
     (case r of (x, (v, m)) \<Rightarrow>
        ((case x of Ret _ \<Rightarrow> True | _ \<Rightarrow> False), Size v, Capacity v, elements v m))"

text \<open>
  The scenario of the specification on \<^verbatim>\<open>Vector<int>\<close>, once with the functions of
  \<^verbatim>\<open>vector.h\<close> and once with those of \<^verbatim>\<open>part_000\<close>: \<^verbatim>\<open>PushBack(1)\<close>, \<^verbatim>\<open>PushBack(2)\<close>,
  \<^verbatim>\<open>PushBack(3)\<close> on an empty vector, then \<^verbatim>\<open>Insert(begin() + 1, 99)\<close>, then
  \<^verbatim>\<open>Erase(begin())\<close>. The arguments are rvalues, so the \<^verbatim>\<open>T&&\<close> overloads are called.
\<close>

definition push1_vector_h :: "unit outcome \<times> (Vector \<times> int mem)" where
  "push1_vector_h = PushBack_vector_h int_type (Move 1) (Vector_default, empty_mem 100)"

definition push2_vector_h :: "unit outcome \<times> (Vector \<times> int mem)" where
  "push2_vector_h = PushBack_vector_h int_type (Move 2) (snd push1_vector_h)"

definition push3_vector_h :: "unit outcome \<times> (Vector \<times> int mem)" where
  "push3_vector_h = PushBack_vector_h int_type (Move 3) (snd push2_vector_h)"

definition insert_vector_h :: "ptr outcome \<times> (Vector \<times> int mem)" where
  "insert_vector_h =
     Insert_move_vector_h int_type (ptr_add (begin_it (fst (snd push3_vector_h))) 1) 99
       (snd push3_vector_h)"

definition erase_vector_h :: "ptr outcome \<times> (Vector \<times> int mem)" where
  "erase_vector_h = Erase_vector_h int_type (begin_it (fst (snd insert_vector_h))) (snd insert_vector_h)"

definition push1_part_000 :: "unit outcome \<times> (Vector \<times> int mem)" where
  "push1_part_000 = PushBack_part_000 int_type (Move 1) (Vector_default, empty_mem 100)"

definition push2_part_000 :: "unit outcome \<times> (Vector \<times> int mem)" where
  "push2_part_000 = PushBack_part_000 int_type (Move 2) (snd push1_part_000)"

definition push3_part_000 :: "unit outcome \<times> (Vector \<times> int mem)" where
  "push3_part_000 = PushBack_part_000 int_type (Move 3) (snd push2_part_000)"

definition insert_part_000 :: "ptr outcome \<times> (Vector \<times> int mem)" where
  "insert_part_000 =
     Insert_move_part_000 int_type (ptr_add (begin_it (fst (snd push3_part_000))) 1) 99
       (snd push3_part_000)"

definition erase_part_000 :: "ptr outcome \<times> (Vector \<times> int mem)" where
  "erase_part_000 = Erase_part_000 int_type (begin_it (fst (snd insert_part_000))) (snd insert_part_000)"

text \<open>A full vector: \<open>[1]\<close> with capacity 1, in block 1.\<close>

definition full_one :: "Vector \<times> int mem" where
  "full_one =
     (\<lparr>data_m = \<lparr>buffer_m = 1, capacity_m = 1\<rparr>, size_m = 1\<rparr>,
      (empty_mem 99)\<lparr>heap := (\<lambda>_. None)(1 := Some [Some 1]), brk := 2\<rparr>)"

text \<open>For stating what an algorithm leaves in a block: \<open>overwrite k zs ys\<close> is \<open>ys\<close> with
  the slots from offset \<open>k\<close> on replaced by \<open>zs\<close>.\<close>

definition overwrite :: "nat \<Rightarrow> 'b list \<Rightarrow> 'b list \<Rightarrow> 'b list" where
  "overwrite k zs ys = take k ys @ zs @ drop (k + length zs) ys"

text \<open>The test of \<^verbatim>\<open>if constexpr\<close> that selects relocation by move, and the condition under
  which the relocation of the elements \<open>xs\<close> throws nothing: the selected constructor
  throws for none of them.\<close>

definition relocation_by_move :: "'a elem_type \<Rightarrow> bool" where
  "relocation_by_move T \<longleftrightarrow> nothrow_move_constructible T \<or> \<not> copy_constructible T"


text \<open>Whether the constructor call with the arguments \<open>a\<close> throws, the value it yields
  otherwise, and the number of elements that \<^verbatim>\<open>uninitialized_copy_n\<close> copies before the
  copy constructor throws for the first time.\<close>

definition ctor_throws :: "'a elem_type \<Rightarrow> 'a init \<Rightarrow> bool" where
  "ctor_throws T a =
     (case a of Copy x \<Rightarrow> copy_throws T x | Move x \<Rightarrow> move_throws T x
      | Args None \<Rightarrow> True | Args (Some x) \<Rightarrow> False)"

definition copied_before_throw :: "'a elem_type \<Rightarrow> 'a list \<Rightarrow> nat" where
  "copied_before_throw T xs = length (takeWhile (\<lambda>x. \<not> copy_throws T x) xs)"

text \<open>Two full vectors for the failures during growth: \<open>[-1]\<close> with capacity 1 and
  \<open>[1, -1]\<close> with capacity 2, each in block 1 of its memory.\<close>

definition full_negative :: "Vector \<times> int mem" where
  "full_negative =
     (\<lparr>data_m = \<lparr>buffer_m = 1, capacity_m = 1\<rparr>, size_m = 1\<rparr>,
      (empty_mem 99)\<lparr>heap := (\<lambda>_. None)(1 := Some [Some (- 1)]), brk := 2\<rparr>)"

definition full_two :: "Vector \<times> int mem" where
  "full_two =
     (\<lparr>data_m = \<lparr>buffer_m = 1, capacity_m = 2\<rparr>, size_m = 2\<rparr>,
      (empty_mem 98)\<lparr>heap := (\<lambda>_. None)(1 := Some [Some 1, Some (- 1)]), brk := 2\<rparr>)"

text \<open>A computation on memory that takes nothing from the allocator and gives nothing
  back: it cannot end in \<^verbatim>\<open>std::bad_alloc\<close>, and it leaves the allocator's state alone.\<close>

definition allocation_free :: "('a mem \<Rightarrow> 'r outcome \<times> 'a mem) \<Rightarrow> bool" where
  "allocation_free f \<longleftrightarrow>
     (\<forall>m. fst (f m) \<noteq> Throw bad_alloc \<and> brk (snd (f m)) = brk m \<and> avail (snd (f m)) = avail m)"

text \<open>Two vectors \<open>[1, 2]\<close> (capacity 2) and \<open>[5, - 3]\<close> (capacity 3) at the addresses 0 and
  1 of a store, with their memory.\<close>

definition assign_vectors :: "Vector store" where
  "assign_vectors =
     (\<lambda>_. Vector_default)
       (0 := \<lparr>data_m = \<lparr>buffer_m = 1, capacity_m = 2\<rparr>, size_m = 2\<rparr>,
        1 := \<lparr>data_m = \<lparr>buffer_m = 2, capacity_m = 3\<rparr>, size_m = 2\<rparr>)"

definition assign_mem :: "int mem" where
  "assign_mem =
     (empty_mem 10)
       \<lparr>heap := (\<lambda>_. None)(1 := Some [Some 1, Some 2], 2 := Some [Some 5, Some (- 3), None]),
        brk := 3\<rparr>"

text \<open>Distinct vectors own distinct blocks: the receiver \<open>a\<close> of an assignment holds no
  block, or a block other than that of the source \<open>b\<close>.\<close>

definition separate :: "Vector \<Rightarrow> Vector \<Rightarrow> bool" where
  "separate a b \<longleftrightarrow> buffer_m (data_m a) = 0 \<or> buffer_m (data_m a) \<noteq> buffer_m (data_m b)"

section \<open>Basic facts\<close>

lemma RawMemory_Swap_eq: "RawMemory_Swap (a, b) = (b, a)"
  by (simp add: RawMemory_Swap_def)

lemma Swap_eq: "Swap (a, b) = (b, a)"
  by (simp add: Swap_def RawMemory_Swap_eq)

lemma slot_block:
  "heap m b = Some ys \<Longrightarrow> slot m (b, i) = (if i < length ys then Some (ys ! i) else None)"
  by (simp add: slot_def)

lemma slot_unallocated: "heap m b = None \<Longrightarrow> slot m (b, i) = None"
  by (simp add: slot_def)

lemma wf_mem_empty: "wf_mem (empty_mem n)"
  by (simp add: wf_mem_def empty_mem_def)


lemma represents_default: "represents Vector_default m []"
  by (simp add: represents_def Vector_default_def RawMemory_default_def)


text \<open>What \<open>represents\<close> means for a caller: reading the elements yields \<open>xs\<close>.\<close>

lemma elements_represents:
  assumes "represents v m xs"
  shows "elements v m = map (\<lambda>x. Some (Some x)) xs"
proof (cases "capacity_m (data_m v) = 0")
  case True
  with assms show ?thesis by (simp add: represents_def elements_def)
next
  case False
  with assms have h: "heap m (buffer_m (data_m v)) = Some (block_of xs (capacity_m (data_m v)))"
    and l: "size_m v = length xs" "length xs \<le> capacity_m (data_m v)"
    by (simp_all add: represents_def)
  show ?thesis
    unfolding elements_def RawMemory_plus_def l(1)
    by (rule nth_equalityI) (use l in \<open>auto simp: slot_block[OF h] block_of_def nth_append\<close>)
qed

section \<open>Moving and self-assignment\<close>

text \<open>
  C10. Assigning a vector to itself, by copy (in either draft) or by move, returns
  normally and leaves the store of objects and the memory, counters included, exactly
  as they were: no element is constructed, assigned or destroyed.
\<close>

theorem self_assignment_no_op:
  "copy_assign_vector_h T x x (st, m) = (Ret (), (st, m)) \<and>
   copy_assign_part_000 T x x (st, m) = (Ret (), (st, m)) \<and>
   move_assign x x st = st"
  by (simp add: copy_assign_vector_h_def copy_assign_part_000_def move_assign_def)

text \<open>
  C3, as the claim states it, fails for move assignment: after \<open>a = std::move(b)\<close> with
  \<open>a = [1, 2]\<close> and \<open>b = [3]\<close>, the source \<open>b\<close> has size 2 and holds \<open>[1, 2]\<close>.
\<close>

theorem move_assign_source_not_empty:
  "Size (move_assign 0 1 two_vectors 1) = 2 \<and>
   elements (move_assign 0 1 two_vectors 1) two_vectors_mem = [Some (Some 1), Some (Some 2)]"
  by (simp add: move_assign_def Swap_eq Size_def elements_def two_vectors_def two_vectors_mem_def
      slot_def RawMemory_plus_def empty_mem_def upt_rec)

text \<open>
  C3, amended. Move construction gives the new vector the members of the source and
  leaves the source default-constructed: size 0, capacity 0, representing the empty
  list. Move assignment between two distinct vectors exchanges their members: the
  destination gets the source's prior contents and the source gets the destination's
  prior contents. Neither reads or writes memory (they are functions of the objects
  alone), so no element is copied, and neither has a failing outcome.
\<close>

theorem move_exchanges_members:
  "Vector_move other = (other, Vector_default) \<and>
   Size Vector_default = 0 \<and> Capacity Vector_default = 0 \<and> represents Vector_default m [] \<and>
   (this \<noteq> rhs \<longrightarrow> move_assign this rhs st = st(this := st rhs, rhs := st this))"
  by (simp add: Vector_move_def move_assign_def Swap_eq Size_def Capacity_def Vector_default_def
      RawMemory_default_def represents_def)

theorem move_exchanges_members_witness:
  "Vector_move (two_vectors 1) = (two_vectors 1, Vector_default) \<and>
   move_assign 0 1 two_vectors 0 = two_vectors 1 \<and>
   move_assign 0 1 two_vectors 1 = two_vectors 0 \<and>
   elements (move_assign 0 1 two_vectors 0) two_vectors_mem = [Some (Some 3)]"
  using move_exchanges_members [of "two_vectors 1" two_vectors_mem 0 1 two_vectors]
  by (simp add: elements_def two_vectors_def two_vectors_mem_def slot_def RawMemory_plus_def
      empty_mem_def)

text \<open>
  C4, as the claim states it, fails for move assignment in \<^verbatim>\<open>part_000\<close>: after moving
  the object at address 1 into the object at address 0, which held block 1 with capacity
  2, the moved-from object holds block 1 with capacity 2.
\<close>

theorem RawMemory_move_assign_source_keeps_memory:
  "buffer_m (RawMemory_move_assign_part_000 0 1 two_raw 1) = 1 \<and>
   capacity_m (RawMemory_move_assign_part_000 0 1 two_raw 1) = 2"
  by (simp add: RawMemory_move_assign_part_000_def RawMemory_Swap_eq two_raw_def)

text \<open>
  C4, amended. The move constructor of either draft gives the new object the address
  and capacity of the source and leaves the source with the null address and capacity 0;
  releasing such an object changes nothing. Move assignment between distinct objects
  exchanges address and capacity of the two, in \<^verbatim>\<open>part_000\<close> always and in \<^verbatim>\<open>vector.h\<close>
  when the destination holds the null address; so the moved-from object holds no
  memory when the destination held none.
\<close>

theorem RawMemory_move_transfers:
  "RawMemory_move_vector_h other = (other, RawMemory_default) \<and>
   RawMemory_move_part_000 other = (other, RawMemory_default) \<and>
   buffer_m RawMemory_default = 0 \<and> capacity_m RawMemory_default = 0 \<and>
   RawMemory_dtor RawMemory_default m = (Ret (), m) \<and>
   (this \<noteq> rhs \<longrightarrow>
      RawMemory_move_assign_part_000 this rhs st = st(this := st rhs, rhs := st this)) \<and>
   (this \<noteq> rhs \<and> buffer_m (st this) = 0 \<longrightarrow>
      RawMemory_move_assign_vector_h this rhs (st, m) =
        (Ret (), (st(this := st rhs, rhs := st this), m)))"
  by (simp add: RawMemory_move_vector_h_def RawMemory_move_part_000_def RawMemory_Swap_eq
      RawMemory_default_def RawMemory_dtor_def Deallocate_def RawMemory_move_assign_part_000_def
      RawMemory_move_assign_vector_h_def delete_array_def)

theorem RawMemory_move_transfers_witness:
  "RawMemory_move_vector_h (two_raw 0) = (two_raw 0, RawMemory_default) \<and>
   RawMemory_move_assign_part_000 2 0 two_raw 2 = \<lparr>buffer_m = 1, capacity_m = 2\<rparr> \<and>
   RawMemory_move_assign_part_000 2 0 two_raw 0 = \<lparr>buffer_m = 0, capacity_m = 0\<rparr> \<and>
   RawMemory_move_assign_vector_h 2 0 (two_raw, two_vectors_mem) =
     (Ret (), (two_raw(2 := two_raw 0, 0 := two_raw 2), two_vectors_mem))"
  using RawMemory_move_transfers [of "two_raw 0" two_vectors_mem 2 0 two_raw]
  by (simp add: two_raw_def RawMemory_default_def)

text \<open>
  In \<^verbatim>\<open>vector.h\<close> the move assignment runs \<^verbatim>\<open>delete[] buffer_\<close> before the exchange. For a
  destination that holds a block this is no defined operation: the block comes from
  \<^verbatim>\<open>operator new\<close>, not from an array \<^verbatim>\<open>new\<close>, and the members are not reset, so that the
  exchange would hand the address to the source, whose destructor would release it a
  second time. The statement above says nothing about this case.
\<close>

lemma RawMemory_move_assign_vector_h_owning:
  "this \<noteq> rhs \<Longrightarrow> buffer_m (st this) \<noteq> 0 \<Longrightarrow>
   RawMemory_move_assign_vector_h this rhs (st, m) = (Fault, (st, m))"
  by (simp add: RawMemory_move_assign_vector_h_def delete_array_def)

section \<open>PopBack on an empty vector\<close>

lemma PopBack_part_000_empty: "size_m v = 0 \<Longrightarrow> PopBack_part_000 (v, m) = (Ret (), (v, m))"
  by (simp add: PopBack_part_000_def)

text \<open>
  C2. \<^verbatim>\<open>PopBack\<close> of \<^verbatim>\<open>part_000\<close> on a vector of size 0 returns and changes nothing
  (\<open>PopBack_part_000_empty\<close>). \<^verbatim>\<open>PopBack\<close> of \<^verbatim>\<open>vector.h\<close> has no test: on every empty
  vector it runs the destructor on slot \<open>SIZE_MAX\<close> of the buffer, which is no live
  object, and so leaves defined behaviour.
\<close>

theorem PopBack_vector_h_empty_faults:
  assumes "wf_mem m" and "represents v m []"
  shows "PopBack_vector_h (v, m) = (Fault, (v, m))"
proof (cases "capacity_m (data_m v) = 0")
  case True
  with assms have "heap m (buffer_m (data_m v)) = None"
    by (simp add: represents_def wf_mem_def)
  then show ?thesis
    by (simp add: PopBack_vector_h_def destroy_at_def RawMemory_plus_def slot_unallocated)
next
  case False
  with assms have "heap m (buffer_m (data_m v)) = Some (replicate (capacity_m (data_m v)) None)"
    by (simp add: represents_def block_of_def)
  then show ?thesis
    by (simp add: PopBack_vector_h_def destroy_at_def RawMemory_plus_def slot_block)
qed

theorem PopBack_vector_h_empty_faults_witness:
  "wf_mem (empty_mem 0 :: int mem) \<and> represents Vector_default (empty_mem 0 :: int mem) [] \<and>
   PopBack_vector_h (Vector_default, empty_mem 0 :: int mem) = (Fault, (Vector_default, empty_mem 0))"
  using PopBack_vector_h_empty_faults [OF wf_mem_empty represents_default, of 0]
  by (simp add: wf_mem_empty represents_default)

section \<open>The growth policy\<close>

lemma size_t_id: "n < 2 ^ 64 \<Longrightarrow> size_t (int n) = n"
  by (simp add: size_t_def)

lemma size_t_double: "2 * n < 2 ^ 64 \<Longrightarrow> size_t (int n * 2) = 2 * n"
  using size_t_id [of "2 * n"] by (simp add: mult.commute)

text \<open>When the product does not wrap around, the block of \<open>n * sizeof(T)\<close> bytes holds \<open>n\<close>
  slots.\<close>

lemma slots_no_wrap:
  assumes "0 < sz" "n * sz < 2 ^ 64"
  shows "size_t (int n * int sz) div sz = n"
proof -
  have "size_t (int n * int sz) = n * sz"
    using size_t_id [OF assms(2)] by simp
  with assms(1) show ?thesis by simp
qed

text \<open>In the examples the elements have 4 bytes and fewer than 1000 slots are requested,
  so that the product does not wrap around.\<close>

lemma Allocate_eval:
  "sizeof_T m = 4 \<Longrightarrow> n < 1000 \<Longrightarrow>
   Allocate n m =
     (if n \<noteq> 0 then
        (if n \<le> avail m
         then (Ret (brk m),
               m\<lparr>heap := (heap m)(brk m := Some (replicate n None)),
                 brk := brk m + 1, avail := avail m - n\<rparr>)
         else (Throw bad_alloc, m))
      else (Ret 0, m))"
proof -
  assume a: "sizeof_T m = 4" "n < 1000"
  then have "0 < sizeof_T m" "n * sizeof_T m < 2 ^ 64" by simp_all
  then have "size_t (int n * int (sizeof_T m)) div sizeof_T m = n" by (rule slots_no_wrap)
  then show ?thesis by (simp add: Allocate_def operator_new_def)
qed

lemmas prim_defs = slot_def put_def run_constructor_def construct_at_def copy_construct_at_def
  move_construct_at_def value_construct_at_def destroy_at_def copy_assign_at_def move_assign_at_def
  move_assign_from_def and_then_def try_catch_rethrow_def rethrow_def scope_exit_def with_this_def
  destroy_local_def ptr_add_def ptr_dec_def ptr_diff_def range_length_def std_copy_def std_move_def
  std_move_backward_def Allocate_eval Deallocate_def RawMemory_sized_def RawMemory_dtor_def
  RawMemory_Swap_def RawMemory_plus_def GetAddress_def Size_def Capacity_def begin_it_def end_it_def
  ptr_le_def ptr_less_def size_t_def elements_def Vector_default_def RawMemory_default_def
  empty_mem_def int_type_def

lemma RawMemory_sized_Ret: "RawMemory_sized n m = (Ret r, m') \<Longrightarrow> capacity_m r = n"
  by (auto simp: RawMemory_sized_def Allocate_def operator_new_def split: if_splits)

lemma with_this_scope_exit_Ret:
  "with_this w (scope_exit (Ret x) r) = (Ret p, (v', m')) \<Longrightarrow> v' = w"
  by (auto simp: with_this_def scope_exit_def split: prod.splits outcome.splits)

lemma with_this_scope_exit_Throw [simp]:
  "with_this w (scope_exit (Throw e) r) \<noteq> (Ret p, s)"
  by (auto simp: with_this_def scope_exit_def split: prod.splits outcome.splits)

lemma grown_capacity:
  assumes "size_m v = Capacity v" "2 * Capacity v < 2 ^ 64"
    and "RawMemory_sized (if size_m v = 0 then 1 else size_t (int (size_m v) * 2)) m = (Ret r, m1)"
  shows "capacity_m r = max 1 (2 * Capacity v)"
  using RawMemory_sized_Ret [OF assms(3)] assms(1,2) by (auto simp: size_t_double)

lemma EmplaceBack_growth:
  assumes "size_m v = Capacity v" "2 * Capacity v < 2 ^ 64"
    and "EmplaceBack T a (v, m) = (Ret p, (v', m'))"
  shows "Capacity v' = max 1 (2 * Capacity v)"
proof -
  obtain r m1 where
    r: "RawMemory_sized (if size_m v = 0 then 1 else size_t (int (size_m v) * 2)) m = (Ret r, m1)"
    using assms(1,3) by (auto simp: EmplaceBack_def split: prod.splits outcome.splits)
  show ?thesis
    using assms(1,3) r grown_capacity [OF assms(1,2) r]
    by (auto simp: EmplaceBack_def RawMemory_Swap_eq Capacity_def split: prod.splits outcome.splits
        dest!: with_this_scope_exit_Ret)
qed

lemma PushBack_vector_h_growth:
  assumes "size_m v = Capacity v" "2 * Capacity v < 2 ^ 64"
    and "PushBack_vector_h T a (v, m) = (Ret p, (v', m'))"
  shows "Capacity v' = max 1 (2 * Capacity v)"
proof -
  obtain r m1 where
    r: "RawMemory_sized (if size_m v = 0 then 1 else size_t (int (size_m v) * 2)) m = (Ret r, m1)"
    using assms(1,3) by (auto simp: PushBack_vector_h_def split: prod.splits outcome.splits)
  show ?thesis
    using assms(1,3) r grown_capacity [OF assms(1,2) r]
    by (auto simp: PushBack_vector_h_def RawMemory_Swap_eq Capacity_def
        split: prod.splits outcome.splits dest!: with_this_scope_exit_Ret)
qed

lemma PushBack_part_000_growth:
  assumes "size_m v = Capacity v" "2 * Capacity v < 2 ^ 64"
    and "PushBack_part_000 T a (v, m) = (Ret p, (v', m'))"
  shows "Capacity v' = max 1 (2 * Capacity v)"
proof -
  obtain q where "EmplaceBack T a (v, m) = (Ret q, (v', m'))"
    using assms(3) by (auto simp: PushBack_part_000_def split: prod.splits outcome.splits)
  then show ?thesis by (rule EmplaceBack_growth [OF assms(1,2)])
qed

lemma Emplace_vector_h_growth:
  assumes "size_m v = Capacity v" "2 * Capacity v < 2 ^ 64"
    and "Emplace_vector_h T pos a (v, m) = (Ret p, (v', m'))"
  shows "Capacity v' = max 1 (2 * Capacity v)"
proof -
  obtain r m1 where
    r: "RawMemory_sized (if size_m v = 0 then 1 else size_t (int (size_m v) * 2)) m = (Ret r, m1)"
    using assms(1,3)
    by (auto simp: Emplace_vector_h_def split: prod.splits outcome.splits option.splits)
  show ?thesis
    using assms(1,3) r grown_capacity [OF assms(1,2) r]
    by (auto simp: Emplace_vector_h_def RawMemory_Swap_eq Capacity_def
        split: prod.splits outcome.splits option.splits dest!: with_this_scope_exit_Ret)
qed

lemma Emplace_part_000_growth:
  assumes "size_m v = Capacity v" "2 * Capacity v < 2 ^ 64"
    and "Emplace_part_000 T pos a (v, m) = (Ret p, (v', m'))"
  shows "Capacity v' = max 1 (2 * Capacity v)"
proof -
  have "Emplace_vector_h T pos a (v, m) = (Ret p, (v', m'))"
    using assms(3) by (auto simp: Emplace_part_000_def split: if_splits)
  then show ?thesis by (rule Emplace_vector_h_growth [OF assms(1,2)])
qed

text \<open>The copying \<^verbatim>\<open>Insert\<close> of \<^verbatim>\<open>vector.h\<close> is, statement by statement, \<^verbatim>\<open>Emplace\<close> with
  the copy constructor.\<close>

lemma Insert_copy_vector_h_eq_Emplace:
  "Insert_copy_vector_h T pos val s = Emplace_vector_h T pos (Copy val) s"
  by (simp add: Insert_copy_vector_h_def Emplace_vector_h_def)

lemma Insert_move_vector_h_growth:
  assumes "size_m v = Capacity v" "2 * Capacity v < 2 ^ 64"
    and "Insert_move_vector_h T pos a (v, m) = (Ret p, (v', m'))"
  shows "Capacity v' = max 1 (2 * Capacity v)"
proof -
  obtain r m1 where
    r: "RawMemory_sized (if size_m v = 0 then 1 else size_t (int (size_m v) * 2)) m = (Ret r, m1)"
    using assms(1,3)
    by (auto simp: Insert_move_vector_h_def split: prod.splits outcome.splits option.splits)
  show ?thesis
    using assms(1,3) r grown_capacity [OF assms(1,2) r]
    by (auto simp: Insert_move_vector_h_def RawMemory_Swap_eq Capacity_def
        split: prod.splits outcome.splits option.splits dest!: with_this_scope_exit_Ret)
qed

lemma scenario_vector_h:
  "observe push1_vector_h = (True, 1, 1, [Some (Some 1)])"
  "observe push2_vector_h = (True, 2, 2, [Some (Some 1), Some (Some 2)])"
  "observe push3_vector_h = (True, 3, 4, [Some (Some 1), Some (Some 2), Some (Some 3)])"
  "observe insert_vector_h = (True, 4, 4, [Some (Some 1), Some (Some 99), Some (Some 2), Some (Some 3)])"
  "observe erase_vector_h = (True, 3, 4, [Some (Some 99), Some (Some 2), Some (Some 3)])"
  by (simp_all add: observe_def push1_vector_h_def push2_vector_h_def push3_vector_h_def
      insert_vector_h_def erase_vector_h_def PushBack_vector_h_def Insert_move_vector_h_def
      Erase_vector_h_def PopBack_vector_h_def prim_defs eval_nat_numeral)

lemma scenario_part_000:
  "observe push1_part_000 = (True, 1, 1, [Some (Some 1)])"
  "observe push2_part_000 = (True, 2, 2, [Some (Some 1), Some (Some 2)])"
  "observe push3_part_000 = (True, 3, 4, [Some (Some 1), Some (Some 2), Some (Some 3)])"
  "observe insert_part_000 = (True, 4, 4, [Some (Some 1), Some (Some 99), Some (Some 2), Some (Some 3)])"
  "observe erase_part_000 = (True, 3, 4, [Some (Some 99), Some (Some 2), Some (Some 3)])"
  by (simp_all add: observe_def push1_part_000_def push2_part_000_def push3_part_000_def
      insert_part_000_def erase_part_000_def PushBack_part_000_def EmplaceBack_def
      Insert_move_part_000_def Emplace_part_000_def Emplace_vector_h_def
      Erase_part_000_def PopBack_part_000_def prim_defs eval_nat_numeral)

text \<open>
  C6. Let the size of a vector equal its capacity, and let twice the capacity be
  representable in \<^verbatim>\<open>size_t\<close> (a block of \<open>2^63\<close> elements does not fit a 64-bit address
  space). Then every insertion that returns, by \<^verbatim>\<open>EmplaceBack\<close>, \<^verbatim>\<open>PushBack\<close>, \<^verbatim>\<open>Emplace\<close>
  or \<^verbatim>\<open>Insert\<close> of either draft, leaves the capacity at exactly \<open>max 1 (2 * old capacity)\<close>.
  In the scenario of the specification, run with either draft, every call returns; the
  capacity goes from 0 to 1, 2 and 4 over the three calls of \<^verbatim>\<open>PushBack\<close>, after which the
  size is 3 and the elements are \<open>[1, 2, 3]\<close>; \<^verbatim>\<open>Insert(begin() + 1, 99)\<close> gives
  \<open>[1, 99, 2, 3]\<close> with size 4; \<^verbatim>\<open>Erase(begin())\<close> gives \<open>[99, 2, 3]\<close> with size 3.
\<close>

theorem growth_policy:
  "(size_m v = Capacity v \<and> 2 * Capacity v < 2 ^ 64 \<longrightarrow>
      (EmplaceBack T a (v, m) = (Ret p, (v', m')) \<longrightarrow> Capacity v' = max 1 (2 * Capacity v)) \<and>
      (PushBack_vector_h T a (v, m) = (Ret (), (v', m')) \<longrightarrow> Capacity v' = max 1 (2 * Capacity v)) \<and>
      (PushBack_part_000 T a (v, m) = (Ret (), (v', m')) \<longrightarrow> Capacity v' = max 1 (2 * Capacity v)) \<and>
      (Emplace_vector_h T pos a (v, m) = (Ret p, (v', m')) \<longrightarrow> Capacity v' = max 1 (2 * Capacity v)) \<and>
      (Emplace_part_000 T pos a (v, m) = (Ret p, (v', m')) \<longrightarrow> Capacity v' = max 1 (2 * Capacity v)) \<and>
      (Insert_copy_vector_h T pos x (v, m) = (Ret p, (v', m')) \<longrightarrow> Capacity v' = max 1 (2 * Capacity v)) \<and>
      (Insert_move_vector_h T pos x (v, m) = (Ret p, (v', m')) \<longrightarrow> Capacity v' = max 1 (2 * Capacity v)) \<and>
      (Insert_copy_part_000 T pos x (v, m) = (Ret p, (v', m')) \<longrightarrow> Capacity v' = max 1 (2 * Capacity v)) \<and>
      (Insert_move_part_000 T pos x (v, m) = (Ret p, (v', m')) \<longrightarrow> Capacity v' = max 1 (2 * Capacity v))) \<and>
   Capacity Vector_default = 0 \<and>
   observe push1_vector_h = (True, 1, 1, [Some (Some 1)]) \<and>
   observe push2_vector_h = (True, 2, 2, [Some (Some 1), Some (Some 2)]) \<and>
   observe push3_vector_h = (True, 3, 4, [Some (Some 1), Some (Some 2), Some (Some 3)]) \<and>
   observe insert_vector_h = (True, 4, 4, [Some (Some 1), Some (Some 99), Some (Some 2), Some (Some 3)]) \<and>
   observe erase_vector_h = (True, 3, 4, [Some (Some 99), Some (Some 2), Some (Some 3)]) \<and>
   observe push1_part_000 = (True, 1, 1, [Some (Some 1)]) \<and>
   observe push2_part_000 = (True, 2, 2, [Some (Some 1), Some (Some 2)]) \<and>
   observe push3_part_000 = (True, 3, 4, [Some (Some 1), Some (Some 2), Some (Some 3)]) \<and>
   observe insert_part_000 = (True, 4, 4, [Some (Some 1), Some (Some 99), Some (Some 2), Some (Some 3)]) \<and>
   observe erase_part_000 = (True, 3, 4, [Some (Some 99), Some (Some 2), Some (Some 3)])"
proof -
  have "Capacity v' = max 1 (2 * Capacity v)"
    if "size_m v = Capacity v" "2 * Capacity v < 2 ^ 64"
      and "EmplaceBack T a (v, m) = (Ret p, (v', m')) \<or>
           PushBack_vector_h T a (v, m) = (Ret (), (v', m')) \<or>
           PushBack_part_000 T a (v, m) = (Ret (), (v', m')) \<or>
           Emplace_vector_h T pos a (v, m) = (Ret p, (v', m')) \<or>
           Emplace_part_000 T pos a (v, m) = (Ret p, (v', m')) \<or>
           Insert_copy_vector_h T pos x (v, m) = (Ret p, (v', m')) \<or>
           Insert_move_vector_h T pos x (v, m) = (Ret p, (v', m')) \<or>
           Insert_copy_part_000 T pos x (v, m) = (Ret p, (v', m')) \<or>
           Insert_move_part_000 T pos x (v, m) = (Ret p, (v', m'))"
    using that(3)
    unfolding Insert_copy_vector_h_eq_Emplace Insert_copy_part_000_def Insert_move_part_000_def
    by (elim disjE)
      (erule EmplaceBack_growth [OF that(1,2)] PushBack_vector_h_growth [OF that(1,2)]
         PushBack_part_000_growth [OF that(1,2)] Emplace_vector_h_growth [OF that(1,2)]
         Emplace_part_000_growth [OF that(1,2)] Insert_move_vector_h_growth [OF that(1,2)])+
  then show ?thesis
    using scenario_vector_h scenario_part_000 by (simp add: Capacity_def Vector_default_def RawMemory_default_def)
qed

theorem growth_policy_witness:
  "size_m (fst full_one) = Capacity (fst full_one) \<and> 2 * Capacity (fst full_one) < 2 ^ 64 \<and>
   observe (EmplaceBack int_type (Move 2) full_one) = (True, 2, 2, [Some (Some 1), Some (Some 2)]) \<and>
   observe (PushBack_vector_h int_type (Move 2) full_one) = (True, 2, 2, [Some (Some 1), Some (Some 2)]) \<and>
   observe (PushBack_part_000 int_type (Move 2) full_one) = (True, 2, 2, [Some (Some 1), Some (Some 2)]) \<and>
   observe (Emplace_vector_h int_type (1, 0) (Move 2) full_one) = (True, 2, 2, [Some (Some 2), Some (Some 1)]) \<and>
   observe (Emplace_part_000 int_type (1, 0) (Move 2) full_one) = (True, 2, 2, [Some (Some 2), Some (Some 1)]) \<and>
   observe (Insert_copy_vector_h int_type (1, 0) 2 full_one) = (True, 2, 2, [Some (Some 2), Some (Some 1)]) \<and>
   observe (Insert_move_vector_h int_type (1, 0) 2 full_one) = (True, 2, 2, [Some (Some 2), Some (Some 1)]) \<and>
   observe (Insert_copy_part_000 int_type (1, 0) 2 full_one) = (True, 2, 2, [Some (Some 2), Some (Some 1)]) \<and>
   observe (Insert_move_part_000 int_type (1, 0) 2 full_one) = (True, 2, 2, [Some (Some 2), Some (Some 1)])"
proof -
  have h: "size_m (fst full_one) = Capacity (fst full_one)" "2 * Capacity (fst full_one) < 2 ^ 64"
    by (simp_all add: full_one_def Capacity_def)
  have ev:
    "observe (EmplaceBack int_type (Move 2) full_one) = (True, 2, 2, [Some (Some 1), Some (Some 2)])"
    "observe (PushBack_vector_h int_type (Move 2) full_one) = (True, 2, 2, [Some (Some 1), Some (Some 2)])"
    "observe (PushBack_part_000 int_type (Move 2) full_one) = (True, 2, 2, [Some (Some 1), Some (Some 2)])"
    "observe (Emplace_vector_h int_type (1, 0) (Move 2) full_one) = (True, 2, 2, [Some (Some 2), Some (Some 1)])"
    "observe (Emplace_part_000 int_type (1, 0) (Move 2) full_one) = (True, 2, 2, [Some (Some 2), Some (Some 1)])"
    "observe (Insert_copy_vector_h int_type (1, 0) 2 full_one) = (True, 2, 2, [Some (Some 2), Some (Some 1)])"
    "observe (Insert_move_vector_h int_type (1, 0) 2 full_one) = (True, 2, 2, [Some (Some 2), Some (Some 1)])"
    "observe (Insert_copy_part_000 int_type (1, 0) 2 full_one) = (True, 2, 2, [Some (Some 2), Some (Some 1)])"
    "observe (Insert_move_part_000 int_type (1, 0) 2 full_one) = (True, 2, 2, [Some (Some 2), Some (Some 1)])"
    by (simp_all add: observe_def full_one_def EmplaceBack_def PushBack_vector_h_def PushBack_part_000_def
      Emplace_vector_h_def Emplace_part_000_def Insert_copy_vector_h_eq_Emplace Insert_move_vector_h_def
      Insert_copy_part_000_def Insert_move_part_000_def prim_defs eval_nat_numeral)
  show ?thesis
    using h ev
      growth_policy [of "fst full_one" int_type "Move 2" "snd full_one" "(2, 1)"
        "fst (snd (EmplaceBack int_type (Move 2) full_one))"
        "snd (snd (EmplaceBack int_type (Move 2) full_one))"]
    by simp
qed

section \<open>The algorithms on blocks\<close>

lemma overwrite_Nil [simp]: "overwrite k [] ys = ys"
  by (simp add: overwrite_def)

lemma overwrite_Cons: "k < length ys \<Longrightarrow> overwrite (Suc k) zs (ys[k := z]) = overwrite k (z # zs) ys"
  by (simp add: overwrite_def take_Suc_conv_app_nth)

lemma length_overwrite [simp]: "k + length zs \<le> length ys \<Longrightarrow> length (overwrite k zs ys) = length ys"
  by (simp add: overwrite_def)

lemma overwrite_block_of:
  "length xs \<le> c \<Longrightarrow> overwrite 0 (map Some xs) (replicate c None) = block_of xs c"
  by (simp add: overwrite_def block_of_def)

lemma put_block:
  "heap m b = Some ys \<Longrightarrow> put (b, i) s m = m\<lparr>heap := (heap m)(b := Some (ys[i := s]))\<rparr>"
  by (simp add: put_def)

lemma segment_Cons:
  assumes "take (Suc n) (drop k ys) = z # zs"
  shows "k < length ys" "ys ! k = z" "take n (drop (Suc k) ys) = zs"
proof -
  show k: "k < length ys" using assms by (cases "k < length ys") auto
  then have "drop k ys = ys ! k # drop (Suc k) ys" by (simp add: Cons_nth_drop_Suc)
  with assms show "ys ! k = z" "take n (drop (Suc k) ys) = zs" by simp_all
qed

lemma uninitialized_copy_n_Ret:
  assumes "heap m sb = Some ss" "heap m db = Some ds" "sb \<noteq> db"
    and "take (length xs) (drop so ss) = map Some xs"
    and "d + length xs \<le> length ds"
    and "\<forall>x\<in>set xs. \<not> copy_throws T x"
  shows "uninitialized_copy_n T (sb, so) (length xs) (db, d) m =
           (Ret (), m\<lparr>heap := (heap m)(db := Some (overwrite d (map Some xs) ds)),
                      copy_ctor_calls := copy_ctor_calls m + length xs\<rparr>)"
  using assms
proof (induction xs arbitrary: so d ds m)
  case Nil
  then show ?case by (simp add: fun_upd_idem)
next
  case (Cons x xs)
  from Cons.prems(4) have s: "so < length ss" "ss ! so = Some x"
    "take (length xs) (drop (Suc so) ss) = map Some xs"
    using segment_Cons [of "length xs" so ss "Some x" "map Some xs"] by simp_all
  define m1 where
    "m1 = m\<lparr>heap := (heap m)(db := Some (ds[d := Some x])), copy_ctor_calls := copy_ctor_calls m + 1\<rparr>"
  have step: "copy_construct_at T (sb, so) (db, d) m = (Ret (), m1)"
    unfolding m1_def using Cons.prems s
    by (simp add: copy_construct_at_def construct_at_def run_constructor_def slot_block put_block)
  have "uninitialized_copy_n T (sb, Suc so) (length xs) (db, Suc d) m1 =
      (Ret (), m1\<lparr>heap := (heap m1)(db := Some (overwrite (Suc d) (map Some xs) (ds[d := Some x]))),
                 copy_ctor_calls := copy_ctor_calls m1 + length xs\<rparr>)"
    using Cons.prems s by (intro Cons.IH) (simp_all add: m1_def)
  then have "uninitialized_copy_n T (sb, so) (length (x # xs)) (db, d) m =
      (Ret (), m1\<lparr>heap := (heap m1)(db := Some (overwrite (Suc d) (map Some xs) (ds[d := Some x]))),
                 copy_ctor_calls := copy_ctor_calls m1 + length xs\<rparr>)"
    by (simp add: step ptr_add_def)
  also have "m1\<lparr>heap := (heap m1)(db := Some (overwrite (Suc d) (map Some xs) (ds[d := Some x]))),
                 copy_ctor_calls := copy_ctor_calls m1 + length xs\<rparr> =
      m\<lparr>heap := (heap m)(db := Some (overwrite d (map Some (x # xs)) ds)),
        copy_ctor_calls := copy_ctor_calls m + length (x # xs)\<rparr>"
    unfolding m1_def using Cons.prems(5) by (simp add: overwrite_Cons)
  finally show ?case .
qed

lemma overwrite_replicate_Cons:
  "k < length ys \<Longrightarrow> overwrite (Suc k) (replicate n z) (ys[k := z]) = overwrite k (replicate (Suc n) z) ys"
  using overwrite_Cons [of k ys "replicate n z" z] by simp

lemma destroy_n_Ret:
  assumes "heap m b = Some ys"
    and "take (length xs) (drop k ys) = map Some xs"
  shows "destroy_n (b, k) (length xs) m =
           (Ret (), m\<lparr>heap := (heap m)(b := Some (overwrite k (replicate (length xs) None) ys)),
                      dtor_calls := dtor_calls m + length xs\<rparr>)"
  using assms
proof (induction xs arbitrary: k ys m)
  case Nil
  then show ?case by (simp add: fun_upd_idem)
next
  case (Cons x xs)
  from Cons.prems(2) have s: "k < length ys" "ys ! k = Some x"
    "take (length xs) (drop (Suc k) ys) = map Some xs"
    using segment_Cons [of "length xs" k ys "Some x" "map Some xs"] by simp_all
  define m1 where
    "m1 = m\<lparr>heap := (heap m)(b := Some (ys[k := None])), dtor_calls := dtor_calls m + 1\<rparr>"
  have step: "destroy_at (b, k) m = (Ret (), m1)"
    unfolding m1_def using Cons.prems s by (simp add: destroy_at_def slot_block put_block)
  have "destroy_n (b, Suc k) (length xs) m1 =
      (Ret (), m1\<lparr>heap := (heap m1)(b := Some (overwrite (Suc k) (replicate (length xs) None) (ys[k := None]))),
                 dtor_calls := dtor_calls m1 + length xs\<rparr>)"
    using Cons.prems s by (intro Cons.IH) (simp_all add: m1_def)
  then have "destroy_n (b, k) (length (x # xs)) m =
      (Ret (), m1\<lparr>heap := (heap m1)(b := Some (overwrite (Suc k) (replicate (length xs) None) (ys[k := None]))),
                 dtor_calls := dtor_calls m1 + length xs\<rparr>)"
    by (simp add: step ptr_add_def)
  also have "m1\<lparr>heap := (heap m1)(b := Some (overwrite (Suc k) (replicate (length xs) None) (ys[k := None]))),
                 dtor_calls := dtor_calls m1 + length xs\<rparr> =
      m\<lparr>heap := (heap m)(b := Some (overwrite k (replicate (length (x # xs)) None) ys)),
        dtor_calls := dtor_calls m + length (x # xs)\<rparr>"
    unfolding m1_def using s(1) by (simp add: overwrite_replicate_Cons)
  finally show ?case .
qed



section \<open>Reserve and Resize\<close>

lemma take_block_of [simp]: "take (length xs) (block_of xs c) = map Some xs"
  by (simp add: block_of_def)

lemma length_block_of [simp]: "length xs \<le> c \<Longrightarrow> length (block_of xs c) = c"
  by (simp add: block_of_def)


lemma wf_mem_fresh: "wf_mem m \<Longrightarrow> heap m (brk m) = None \<and> brk m \<noteq> 0 \<and> heap m 0 = None"
  by (simp add: wf_mem_def)

lemma Allocate_Ret:
  "0 < n \<Longrightarrow> n \<le> avail m \<Longrightarrow> 0 < sizeof_T m \<Longrightarrow> n * sizeof_T m < 2 ^ 64 \<Longrightarrow>
   Allocate n m = (Ret (brk m), m\<lparr>heap := (heap m)(brk m := Some (replicate n None)),
                                  brk := brk m + 1, avail := avail m - n\<rparr>)"
  by (simp add: Allocate_def operator_new_def slots_no_wrap)

lemma Allocate_Throw:
  "0 < n \<Longrightarrow> avail m < n \<Longrightarrow> 0 < sizeof_T m \<Longrightarrow> n * sizeof_T m < 2 ^ 64 \<Longrightarrow>
   Allocate n m = (Throw bad_alloc, m)"
  by (simp add: Allocate_def operator_new_def slots_no_wrap)

lemma wf_mem_sizeof: "wf_mem m \<Longrightarrow> 0 < sizeof_T m"
  by (simp add: wf_mem_def)

lemma represents_no_wrap:
  assumes "wf_mem m" "represents v m xs"
  shows "length xs * sizeof_T m < 2 ^ 64"
proof (cases "capacity_m (data_m v) = 0")
  case True
  with assms show ?thesis by (simp add: represents_def)
next
  case False
  with assms(2) have h: "heap m (buffer_m (data_m v)) = Some (block_of xs (capacity_m (data_m v)))"
    and l: "length xs \<le> capacity_m (data_m v)"
    by (simp_all add: represents_def)
  from assms(1) h have "length (block_of xs (capacity_m (data_m v))) * sizeof_T m < 2 ^ 64"
    unfolding wf_mem_def by blast
  with l have "capacity_m (data_m v) * sizeof_T m < 2 ^ 64" by simp
  moreover from l have "length xs * sizeof_T m \<le> capacity_m (data_m v) * sizeof_T m"
    by (rule mult_le_mono1)
  ultimately show ?thesis by linarith
qed



lemma drop_block_of:
  "k \<le> length xs \<Longrightarrow> take (length xs - k) (drop k (block_of xs c)) = map Some (drop k xs)"
  by (simp add: block_of_def drop_map)





lemma overwrite_update:
  "k < length ys \<Longrightarrow> (overwrite (Suc k) zs (ys[k := a]))[k := b] = overwrite k (b # zs) ys"
  by (simp add: overwrite_def take_Suc_conv_app_nth list_update_append)

lemma overwrite_nth_before:
  "k < length ys \<Longrightarrow> overwrite (Suc k) zs (ys[k := a]) ! k = a"
  by (simp add: overwrite_def nth_append take_Suc_conv_app_nth)

lemma length_overwrite_ge: "k + length zs \<le> length ys \<Longrightarrow> length (overwrite k zs ys) = length ys"
  by (simp add: overwrite_def)

lemma uninitialized_copy_n_Throw:
  assumes "heap m sb = Some ss" "heap m db = Some ds" "sb \<noteq> db"
    and "take (length xs) (drop so ss) = map Some xs"
    and "d + length xs \<le> length ds"
    and "\<exists>x\<in>set xs. copy_throws T x"
  shows "uninitialized_copy_n T (sb, so) (length xs) (db, d) m =
           (Throw elem_error,
            m\<lparr>heap := (heap m)(db := Some (overwrite d (replicate (copied_before_throw T xs) None) ds)),
              copy_ctor_calls := copy_ctor_calls m + copied_before_throw T xs,
              dtor_calls := dtor_calls m + copied_before_throw T xs\<rparr>)"
  using assms
proof (induction xs arbitrary: so d ds m)
  case Nil
  then show ?case by simp
next
  case (Cons x xs)
  from Cons.prems(4) have s: "so < length ss" "ss ! so = Some x"
    "take (length xs) (drop (Suc so) ss) = map Some xs"
    using segment_Cons [of "length xs" so ss "Some x" "map Some xs"] by simp_all
  show ?case
  proof (cases "copy_throws T x")
    case True
    then show ?thesis
      using Cons.prems s
      by (simp add: copy_construct_at_def construct_at_def run_constructor_def slot_block
          copied_before_throw_def fun_upd_idem)
  next
    case False
    with Cons.prems(6) have ex: "\<exists>x\<in>set xs. copy_throws T x" by simp
    define k where "k = copied_before_throw T xs"
    have k: "copied_before_throw T (x # xs) = Suc k" "k \<le> length xs"
      using False by (simp_all add: copied_before_throw_def k_def length_takeWhile_le)
    define m1 where
      "m1 = m\<lparr>heap := (heap m)(db := Some (ds[d := Some x])), copy_ctor_calls := copy_ctor_calls m + 1\<rparr>"
    have step: "copy_construct_at T (sb, so) (db, d) m = (Ret (), m1)"
      unfolding m1_def using Cons.prems s False
      by (simp add: copy_construct_at_def construct_at_def run_constructor_def slot_block put_block)
    define m2 where
      "m2 = m1\<lparr>heap := (heap m1)(db := Some (overwrite (Suc d) (replicate k None) (ds[d := Some x]))),
              copy_ctor_calls := copy_ctor_calls m1 + k, dtor_calls := dtor_calls m1 + k\<rparr>"
    have ih: "uninitialized_copy_n T (sb, Suc so) (length xs) (db, Suc d) m1 = (Throw elem_error, m2)"
      unfolding m2_def k_def using Cons.prems s ex by (intro Cons.IH) (simp_all add: m1_def)
    have hb: "heap m2 db = Some (overwrite (Suc d) (replicate k None) (ds[d := Some x]))"
      by (simp add: m2_def)
    have dl: "d < length ds" using Cons.prems(5) by simp
    have ln: "d < length (overwrite (Suc d) (replicate k None) (ds[d := Some x]))"
      using Cons.prems(5) k(2) by (simp add: length_overwrite_ge)
    have ds: "destroy_at (db, d) m2 =
        (Ret (), m2\<lparr>heap := (heap m2)(db := Some ((overwrite (Suc d) (replicate k None) (ds[d := Some x]))[d := None])),
                   dtor_calls := dtor_calls m2 + 1\<rparr>)"
      using ln dl by (simp add: destroy_at_def slot_block [OF hb] overwrite_nth_before put_block [OF hb] hb
          put_def)
    have "uninitialized_copy_n T (sb, so) (length (x # xs)) (db, d) m =
        (Throw elem_error,
         m2\<lparr>heap := (heap m2)(db := Some ((overwrite (Suc d) (replicate k None) (ds[d := Some x]))[d := None])),
            dtor_calls := dtor_calls m2 + 1\<rparr>)"
      by (simp add: step ih ptr_add_def ds rethrow_def)
    also have "m2\<lparr>heap := (heap m2)(db := Some ((overwrite (Suc d) (replicate k None) (ds[d := Some x]))[d := None])),
            dtor_calls := dtor_calls m2 + 1\<rparr> =
        m\<lparr>heap := (heap m)(db := Some (overwrite d (replicate (copied_before_throw T (x # xs)) None) ds)),
              copy_ctor_calls := copy_ctor_calls m + copied_before_throw T (x # xs),
              dtor_calls := dtor_calls m + copied_before_throw T (x # xs)\<rparr>"
      unfolding k(1) using dl by (simp add: m2_def m1_def overwrite_update)
    finally show ?thesis .
  qed
qed

section \<open>The contracts of Reserve and Resize\<close>












section \<open>Failures of EmplaceBack during growth\<close>

lemma run_constructor_throws:
  "ctor_throws T a \<Longrightarrow> run_constructor T a m = (Throw elem_error, m)"
  by (auto simp: ctor_throws_def run_constructor_def split: init.splits option.splits)

lemma run_constructor_Ret:
  "\<not> ctor_throws T a \<Longrightarrow>
   \<exists>x m'. run_constructor T a m = (Ret x, m') \<and> heap m' = heap m \<and> brk m' = brk m \<and>
     avail m' = avail m"
  by (auto simp: ctor_throws_def run_constructor_def split: init.splits option.splits)

lemma doubled_no_wrap:
  assumes "0 < sz" "max 1 (2 * c) * sz < 2 ^ 64"
  shows "2 * c < (2 :: nat) ^ 64"
proof -
  have "2 * c \<le> max 1 (2 * c) * 1" by simp
  also have "\<dots> \<le> max 1 (2 * c) * sz" using assms(1) by (intro mult_le_mono2) simp
  finally show ?thesis using assms(2) by simp
qed

lemma EmplaceBack_alloc_fails:
  assumes full: "size_m v = Capacity v" and sz: "0 < sizeof_T m"
    and fit: "max 1 (2 * Capacity v) * sizeof_T m < 2 ^ 64" and av: "avail m < max 1 (2 * Capacity v)"
  shows "EmplaceBack T a (v, m) = (Throw bad_alloc, (v, m))"
proof -
  note nw = doubled_no_wrap [OF sz fit]
  define n where "n = max 1 (2 * Capacity v)"
  have req: "(if size_m v = 0 then 1 else size_t (int (size_m v) * 2)) = n"
    using full nw by (auto simp: n_def size_t_double)
  have n: "0 < n" "avail m < n" "n * sizeof_T m < 2 ^ 64" using av fit by (auto simp: n_def)
  have alloc: "RawMemory_sized n m = (Throw bad_alloc, m)"
    using n sz by (simp add: RawMemory_sized_def Allocate_Throw)
  show ?thesis
    unfolding EmplaceBack_def prod.case req
    by (simp add: full [symmetric] alloc)
qed

lemma EmplaceBack_ctor_fails:
  assumes full: "size_m v = Capacity v" and sz: "0 < sizeof_T m"
    and fit: "max 1 (2 * Capacity v) * sizeof_T m < 2 ^ 64"
    and wf: "wf_mem m" and av: "max 1 (2 * Capacity v) \<le> avail m" and th: "ctor_throws T a"
  shows "EmplaceBack T a (v, m) = (Throw elem_error, (v, m\<lparr>brk := brk m + 1\<rparr>))"
proof -
  note f = wf_mem_fresh [OF wf]
  note nw = doubled_no_wrap [OF sz fit]
  define n where "n = max 1 (2 * Capacity v)"
  have req: "(if size_m v = 0 then 1 else size_t (int (size_m v) * 2)) = n"
    using full nw by (auto simp: n_def size_t_double)
  have n: "0 < n" "size_m v < n" "n \<le> avail m" "0 < sizeof_T m" "n * sizeof_T m < 2 ^ 64"
    using full av sz fit by (auto simp: n_def)
  define m1 where "m1 = m\<lparr>heap := (heap m)(brk m := Some (replicate n None)),
                          brk := brk m + 1, avail := avail m - n\<rparr>"
  have alloc: "RawMemory_sized n m = (Ret \<lparr>buffer_m = brk m, capacity_m = n\<rparr>, m1)"
    using n by (simp add: RawMemory_sized_def Allocate_Ret m1_def)
  have h1: "heap m1 (brk m) = Some (replicate n None)" by (simp add: m1_def)
  have c: "construct_at T (brk m, size_m v) a m1 = (Throw elem_error, m1)"
    using n by (simp add: construct_at_def slot_block [OF h1] run_constructor_throws [OF th])
  have d: "RawMemory_dtor \<lparr>buffer_m = brk m, capacity_m = n\<rparr> m1 = (Ret (), m\<lparr>brk := brk m + 1\<rparr>)"
    using f n by (simp add: RawMemory_dtor_def Deallocate_def m1_def fun_upd_idem)
  show ?thesis
    unfolding EmplaceBack_def prod.case req
    by (simp add: full [symmetric] alloc RawMemory_plus_def and_then_def c d with_this_def
        scope_exit_def)
qed

lemma EmplaceBack_copy_relocation_fails:
  assumes full: "size_m v = Capacity v" and sz: "0 < sizeof_T m"
    and fit: "max 1 (2 * Capacity v) * sizeof_T m < 2 ^ 64"
    and wf: "wf_mem m" and rep: "represents v m xs"
    and av: "max 1 (2 * Capacity v) \<le> avail m" and nt: "\<not> ctor_throws T a"
    and cp: "\<not> relocation_by_move T" and th: "\<exists>x\<in>set xs. copy_throws T x"
  shows "\<exists>m'. EmplaceBack T a (v, m) = (Throw elem_error, (v, m')) \<and>
           heap m' = heap m \<and> avail m' = avail m \<and> brk m' = brk m + 1"
proof -
  note f = wf_mem_fresh [OF wf]
  note nw = doubled_no_wrap [OF sz fit]
  from th have ne: "xs \<noteq> []" by auto
  from rep full have len: "size_m v = length xs" "Capacity v = length xs"
    by (simp_all add: represents_def)
  with ne have c0: "Capacity v \<noteq> 0" by simp
  with rep have old: "buffer_m (data_m v) \<noteq> 0"
    "heap m (buffer_m (data_m v)) = Some (block_of xs (Capacity v))"
    by (simp_all add: represents_def Capacity_def)
  with f have neq: "buffer_m (data_m v) \<noteq> brk m" by auto
  define n where "n = 2 * Capacity v"
  have req: "(if size_m v = 0 then 1 else size_t (int (size_m v) * 2)) = n"
    using full nw c0 by (auto simp: n_def size_t_double)
  have fit': "n * sizeof_T m < 2 ^ 64" using fit c0 by (simp add: n_def max_def)
  have n: "0 < n" "size_m v < n" "n \<le> avail m" "length xs \<le> n"
    using full av c0 len by (auto simp: n_def)
  note n = n sz fit'
  define m1 where "m1 = m\<lparr>heap := (heap m)(brk m := Some (replicate n None)),
                          brk := brk m + 1, avail := avail m - n\<rparr>"
  have alloc: "RawMemory_sized n m = (Ret \<lparr>buffer_m = brk m, capacity_m = n\<rparr>, m1)"
    using n by (simp add: RawMemory_sized_def Allocate_Ret m1_def)
  have h1: "heap m1 (brk m) = Some (replicate n None)" by (simp add: m1_def)
  from run_constructor_Ret [OF nt, of m1] obtain x mc where
    rc: "run_constructor T a m1 = (Ret x, mc)" and
    mc: "heap mc = heap m1" "brk mc = brk m1" "avail mc = avail m1"
    by blast
  define ds where "ds = (replicate n (None :: 'a option))[size_m v := Some x]"
  define m2 where "m2 = mc\<lparr>heap := (heap mc)(brk m := Some ds)\<rparr>"
  have c: "construct_at T (brk m, size_m v) a m1 = (Ret (), m2)"
    using n mc h1 by (simp add: construct_at_def slot_block [OF h1] rc put_def m2_def ds_def)
  have h2: "heap m2 (buffer_m (data_m v)) = Some (block_of xs (Capacity v))"
    "heap m2 (brk m) = Some ds"
    using old neq by (simp_all add: m2_def mc m1_def)
  have seg: "take (length xs) (drop 0 (block_of xs (Capacity v))) = map Some xs" by simp
  have room: "0 + length xs \<le> length ds" using n by (simp add: ds_def)
  define m3 where "m3 = m2\<lparr>heap := (heap m2)(brk m := Some (overwrite 0 (replicate (copied_before_throw T xs) None) ds)),
              copy_ctor_calls := copy_ctor_calls m2 + copied_before_throw T xs,
              dtor_calls := dtor_calls m2 + copied_before_throw T xs\<rparr>"
  have u: "uninitialized_copy_n T (buffer_m (data_m v), 0) (length xs) (brk m, 0) m2 = (Throw elem_error, m3)"
    unfolding m3_def by (rule uninitialized_copy_n_Throw [OF h2 neq seg room th])
  have kl: "copied_before_throw T xs \<le> length ds"
    using n by (simp add: copied_before_throw_def ds_def order_trans [OF length_takeWhile_le])
  define m4 where "m4 = m3\<lparr>heap := (heap m3)(brk m := None), avail := avail m3 + n\<rparr>"
  have d: "RawMemory_dtor \<lparr>buffer_m = brk m, capacity_m = n\<rparr> m3 = (Ret (), m4)"
    using f kl by (simp add: RawMemory_dtor_def Deallocate_def m3_def m4_def length_overwrite_ge ds_def)
  have u': "uninitialized_copy_n T (buffer_m (data_m v), 0) (size_m v) (brk m, 0) m2 = (Throw elem_error, m3)"
    using u len by simp
  have e: "EmplaceBack T a (v, m) = (Throw elem_error, (v, m4))"
    unfolding EmplaceBack_def prod.case req using cp
    by (simp add: full [symmetric] alloc RawMemory_plus_def GetAddress_def and_then_def c u' d
        with_this_def scope_exit_def relocation_by_move_def)
  have "heap m4 = heap m" "avail m4 = avail m" "brk m4 = brk m + 1"
    using f n by (simp_all add: m4_def m3_def m2_def mc m1_def fun_upd_idem)
  with e show ?thesis by blast
qed

lemma wf_mem_full_negative: "wf_mem (snd full_negative)"
  by (auto simp: wf_mem_def full_negative_def empty_mem_def split: if_splits)

lemma represents_full_negative: "represents (fst full_negative) (snd full_negative) [- 1]"
  by (simp add: represents_def full_negative_def empty_mem_def block_of_def)

text \<open>
  C1, as the claim states it, fails in two ways. With an element type that is relocated
  by copy and whose copy constructor throws for the element \<open>- 1\<close>, \<^verbatim>\<open>EmplaceBack\<close> on the
  full vector \<open>[- 1]\<close> throws after one constructor call (the new element) and no
  destructor call: \<^verbatim>\<open>EmplaceBack\<close> has no handler around the relocation, so the new
  element is never destroyed. With a move-only element type whose move constructor
  throws for \<open>- 1\<close>, \<^verbatim>\<open>EmplaceBack\<close> on the full vector \<open>[1, - 1]\<close> throws and leaves the
  elements \<open>[0, - 1]\<close>: the first element was moved from before the second move threw.
\<close>

theorem EmplaceBack_failure_leaks_or_changes:
  "size_m (fst full_negative) = Capacity (fst full_negative) \<and>
   fst (EmplaceBack fragile_type (Args (Some 5)) full_negative) = Throw elem_error \<and>
   ctor_calls (snd (snd (EmplaceBack fragile_type (Args (Some 5)) full_negative))) =
     ctor_calls (snd full_negative) + 1 \<and>
   dtor_calls (snd (snd (EmplaceBack fragile_type (Args (Some 5)) full_negative))) =
     dtor_calls (snd full_negative) \<and>
   size_m (fst full_two) = Capacity (fst full_two) \<and>
   fst (EmplaceBack move_only_type (Args (Some 5)) full_two) = Throw elem_error \<and>
   elements (fst full_two) (snd full_two) = [Some (Some 1), Some (Some (- 1))] \<and>
   elements (fst (snd (EmplaceBack move_only_type (Args (Some 5)) full_two)))
     (snd (snd (EmplaceBack move_only_type (Args (Some 5)) full_two))) =
     [Some (Some 0), Some (Some (- 1))]"
  by (simp add: full_negative_def full_two_def EmplaceBack_def fragile_type_def move_only_type_def
      prim_defs eval_nat_numeral)

text \<open>
  C1, amended. Let the size equal the capacity and the number of bytes of the new
  storage, \<open>max 1 (2 * capacity) * sizeof(T)\<close>, be representable in \<^verbatim>\<open>size_t\<close>.
  If the allocation fails, \<^verbatim>\<open>EmplaceBack\<close> throws \<^verbatim>\<open>std::bad_alloc\<close> and the vector and
  the memory are exactly as before. If the constructor of the new element throws, the
  exception propagates, the vector is as before and so is the memory (blocks, available
  slots, and all counters: nothing was constructed) up to the allocator's next block.
  If the relocation is by copy and the copy constructor throws for an element, the
  exception propagates, the vector's members are as before, the new block has been
  released (the blocks and the available slots are as before), and the vector holds the
  same elements.
\<close>

theorem EmplaceBack_growth_failure:
  "size_m v = Capacity v \<and> 0 < sizeof_T m \<and> max 1 (2 * Capacity v) * sizeof_T m < 2 ^ 64 \<longrightarrow>
     (avail m < max 1 (2 * Capacity v) \<longrightarrow> EmplaceBack T a (v, m) = (Throw bad_alloc, (v, m))) \<and>
     (wf_mem m \<and> max 1 (2 * Capacity v) \<le> avail m \<and> ctor_throws T a \<longrightarrow>
        EmplaceBack T a (v, m) = (Throw elem_error, (v, m\<lparr>brk := brk m + 1\<rparr>))) \<and>
     (wf_mem m \<and> represents v m xs \<and> max 1 (2 * Capacity v) \<le> avail m \<and> \<not> ctor_throws T a \<and>
      \<not> relocation_by_move T \<and> (\<exists>x\<in>set xs. copy_throws T x) \<longrightarrow>
        (\<exists>m'. EmplaceBack T a (v, m) = (Throw elem_error, (v, m')) \<and>
           heap m' = heap m \<and> avail m' = avail m \<and>
           represents v m' xs \<and> elements v m' = elements v m))"
proof (intro impI conjI; (elim conjE)?)
  assume "size_m v = Capacity v" "0 < sizeof_T m" "max 1 (2 * Capacity v) * sizeof_T m < 2 ^ 64"
    "avail m < max 1 (2 * Capacity v)"
  then show "EmplaceBack T a (v, m) = (Throw bad_alloc, (v, m))"
    by (rule EmplaceBack_alloc_fails)
next
  assume "size_m v = Capacity v" "0 < sizeof_T m" "max 1 (2 * Capacity v) * sizeof_T m < 2 ^ 64"
    "wf_mem m" "max 1 (2 * Capacity v) \<le> avail m" "ctor_throws T a"
  then show "EmplaceBack T a (v, m) = (Throw elem_error, (v, m\<lparr>brk := brk m + 1\<rparr>))"
    by (rule EmplaceBack_ctor_fails)
next
  assume h: "size_m v = Capacity v" "0 < sizeof_T m" "max 1 (2 * Capacity v) * sizeof_T m < 2 ^ 64"
    "wf_mem m" "represents v m xs"
    "max 1 (2 * Capacity v) \<le> avail m" "\<not> ctor_throws T a" "\<not> relocation_by_move T"
    "\<exists>x\<in>set xs. copy_throws T x"
  from EmplaceBack_copy_relocation_fails [OF h] obtain m' where
    e: "EmplaceBack T a (v, m) = (Throw elem_error, (v, m'))" and m': "heap m' = heap m" "avail m' = avail m"
    by blast
  from h(5) m' have rep': "represents v m' xs" by (simp add: represents_def)
  have "elements v m' = elements v m"
    by (simp only: elements_represents [OF rep'] elements_represents [OF h(5)])
  with e m' rep' show "\<exists>m'. EmplaceBack T a (v, m) = (Throw elem_error, (v, m')) \<and>
           heap m' = heap m \<and> avail m' = avail m \<and>
           represents v m' xs \<and> elements v m' = elements v m"
    by blast
qed

theorem EmplaceBack_growth_failure_witness:
  "size_m (fst full_negative) = Capacity (fst full_negative) \<and>
   0 < sizeof_T (snd full_negative) \<and>
   max 1 (2 * Capacity (fst full_negative)) * sizeof_T (snd full_negative) < 2 ^ 64 \<and>
   avail ((snd full_negative)\<lparr>avail := 1\<rparr>) < max 1 (2 * Capacity (fst full_negative)) \<and>
   EmplaceBack int_type (Args (Some 5)) (fst full_negative, (snd full_negative)\<lparr>avail := 1\<rparr>) =
     (Throw bad_alloc, (fst full_negative, (snd full_negative)\<lparr>avail := 1\<rparr>)) \<and>
   wf_mem (snd full_negative) \<and> max 1 (2 * Capacity (fst full_negative)) \<le> avail (snd full_negative) \<and>
   ctor_throws int_type (Args None) \<and>
   EmplaceBack int_type (Args None) (fst full_negative, snd full_negative) =
     (Throw elem_error, (fst full_negative, (snd full_negative)\<lparr>brk := 3\<rparr>)) \<and>
   represents (fst full_negative) (snd full_negative) [- 1] \<and>
   \<not> ctor_throws fragile_type (Args (Some 5)) \<and> \<not> relocation_by_move fragile_type \<and>
   (\<exists>x\<in>set [- 1]. copy_throws fragile_type x) \<and>
   fst (EmplaceBack fragile_type (Args (Some 5)) (fst full_negative, snd full_negative)) = Throw elem_error \<and>
   fst (snd (EmplaceBack fragile_type (Args (Some 5)) (fst full_negative, snd full_negative))) =
     fst full_negative \<and>
   elements (fst full_negative)
     (snd (snd (EmplaceBack fragile_type (Args (Some 5)) (fst full_negative, snd full_negative)))) =
     [Some (Some (- 1))]"
proof -
  have h: "size_m (fst full_negative) = Capacity (fst full_negative)"
    "0 < sizeof_T (snd full_negative)"
    "max 1 (2 * Capacity (fst full_negative)) * sizeof_T (snd full_negative) < 2 ^ 64"
    "avail ((snd full_negative)\<lparr>avail := 1\<rparr>) < max 1 (2 * Capacity (fst full_negative))"
    "max 1 (2 * Capacity (fst full_negative)) \<le> avail (snd full_negative)"
    "ctor_throws int_type (Args None)" "\<not> ctor_throws fragile_type (Args (Some 5))"
    "\<not> relocation_by_move fragile_type" "\<exists>x\<in>set [- 1]. copy_throws fragile_type x"
    "brk (snd full_negative) + 1 = 3"
    by (simp_all add: full_negative_def Capacity_def empty_mem_def ctor_throws_def
        relocation_by_move_def fragile_type_def)
  note w = wf_mem_full_negative represents_full_negative
  have e: "elements (fst full_negative) (snd full_negative) = [Some (Some (- 1))]"
    using elements_represents [OF w(2)] by simp
  show ?thesis
    using h w e
      EmplaceBack_growth_failure [of "fst full_negative" "(snd full_negative)\<lparr>avail := 1\<rparr>" int_type "Args (Some 5)"]
      EmplaceBack_growth_failure [of "fst full_negative" "snd full_negative" int_type "Args None"]
      EmplaceBack_growth_failure [of "fst full_negative" "snd full_negative" fragile_type "Args (Some 5)" "[- 1]"]
    by auto
qed

section \<open>Copy assignment\<close>

lemma allocation_freeI:
  assumes "\<And>m r m'. f m = (r, m') \<Longrightarrow> r \<noteq> Throw bad_alloc \<and> brk m' = brk m \<and> avail m' = avail m"
  shows "allocation_free f"
  unfolding allocation_free_def using assms by (metis prod.collapse)

lemma allocation_freeD:
  assumes "allocation_free f" "f m = (r, m')"
  shows "r \<noteq> Throw bad_alloc" "brk m' = brk m" "avail m' = avail m"
  using assms unfolding allocation_free_def by (metis fst_conv snd_conv)+

lemma allocation_free_destroy_at: "allocation_free (destroy_at p)"
  by (rule allocation_freeI)
     (auto simp: destroy_at_def put_def split: option.splits)

lemma allocation_free_copy_assign_at: "allocation_free (copy_assign_at T p q)"
  by (rule allocation_freeI)
     (auto simp: copy_assign_at_def put_def split: option.splits if_splits)

lemma allocation_free_copy_construct_at: "allocation_free (copy_construct_at T p q)"
  by (rule allocation_freeI)
     (auto simp: copy_construct_at_def construct_at_def run_constructor_def put_def
       split: option.splits if_splits)

lemma allocation_free_and_then:
  assumes "allocation_free f" "\<And>x. allocation_free (g x)"
  shows "allocation_free (and_then f g)"
proof (rule allocation_freeI)
  fix m r m'
  assume a: "and_then f g m = (r, m')"
  obtain r1 m1 where f: "f m = (r1, m1)" by (cases "f m")
  note d = allocation_freeD [OF assms(1) f]
  show "r \<noteq> Throw bad_alloc \<and> brk m' = brk m \<and> avail m' = avail m"
  proof (cases r1)
    case (Ret x)
    with a f have "g x m1 = (r, m')" by (simp add: and_then_def)
    from allocation_freeD [OF assms(2) this] d show ?thesis by simp
  next
    case (Throw e)
    with a f d show ?thesis by (auto simp: and_then_def)
  next
    case Fault
    with a f d show ?thesis by (auto simp: and_then_def)
  qed
qed

lemma allocation_free_destroy_n: "allocation_free (destroy_n p n)"
proof (induction n arbitrary: p)
  case 0
  show ?case by (rule allocation_freeI) simp
next
  case (Suc n)
  have eq: "destroy_n p (Suc n) = and_then (destroy_at p) (\<lambda>_. destroy_n (ptr_add p 1) n)"
    by (rule ext) (simp add: and_then_def split: prod.splits outcome.splits)
  show ?case
    unfolding eq by (rule allocation_free_and_then [OF allocation_free_destroy_at Suc])
qed

lemma allocation_free_copy_loop: "allocation_free (copy_loop T p n q)"
proof (induction n arbitrary: p q)
  case 0
  show ?case by (rule allocation_freeI) simp
next
  case (Suc n)
  have eq: "copy_loop T p (Suc n) q =
      and_then (copy_assign_at T p q) (\<lambda>_. copy_loop T (ptr_add p 1) n (ptr_add q 1))"
    by (rule ext) (simp add: and_then_def split: prod.splits outcome.splits)
  show ?case
    unfolding eq by (rule allocation_free_and_then [OF allocation_free_copy_assign_at Suc])
qed

lemma allocation_free_uninitialized_copy_n: "allocation_free (uninitialized_copy_n T p n q)"
proof (induction n arbitrary: p q)
  case 0
  show ?case by (rule allocation_freeI) simp
next
  case (Suc n)
  show ?case
  proof (rule allocation_freeI)
    fix m r m'
    assume a: "uninitialized_copy_n T p (Suc n) q m = (r, m')"
    obtain r1 m1 where c: "copy_construct_at T p q m = (r1, m1)" by (cases "copy_construct_at T p q m")
    note d1 = allocation_freeD [OF allocation_free_copy_construct_at c]
    show "r \<noteq> Throw bad_alloc \<and> brk m' = brk m \<and> avail m' = avail m"
    proof (cases r1)
      case (Ret x)
      obtain r2 m2 where u: "uninitialized_copy_n T (ptr_add p 1) n (ptr_add q 1) m1 = (r2, m2)"
        by (cases "uninitialized_copy_n T (ptr_add p 1) n (ptr_add q 1) m1")
      note d2 = allocation_freeD [OF Suc u]
      show ?thesis
      proof (cases r2)
        case (Throw e)
        obtain r3 m3 where ds: "destroy_at q m2 = (r3, m3)" by (cases "destroy_at q m2")
        note d3 = allocation_freeD [OF allocation_free_destroy_at ds]
        from a c Ret u Throw ds d1 d2 d3 show ?thesis
          by (cases r3) (auto simp: rethrow_def)
      qed (use a c Ret u d1 d2 in auto)
    qed (use a c d1 in auto)
  qed
qed

lemma std_copy_block: "std_copy T (b, 0) (b, n) q = copy_loop T (b, 0) n q"
  by (rule ext) (simp add: std_copy_def range_length_def)

lemma copy_assign_part_000_eq:
  "copy_assign_part_000 T this rhs s = copy_assign_vector_h T this rhs s"
proof (cases s)
  case (Pair st m)
  show ?thesis
    unfolding Pair copy_assign_part_000_def copy_assign_vector_h_def Copy_part_000_def prod.case
      GetAddress_def RawMemory_plus_def ptr_add_def fst_conv snd_conv add_0 std_copy_block
    by (simp split: prod.splits outcome.splits)
qed

lemma copy_loop_Ret:
  assumes "heap m sb = Some ss" "heap m db = Some ds" "sb \<noteq> db"
    and "take (length xs) (drop so ss) = map Some xs"
    and "take (length xs) (drop d ds) = map Some olds" "length olds = length xs"
    and "\<forall>x\<in>set xs. \<not> copy_assign_throws T x"
  shows "copy_loop T (sb, so) (length xs) (db, d) m =
           (Ret (), m\<lparr>heap := (heap m)(db := Some (overwrite d (map Some xs) ds)),
                      copy_assign_calls := copy_assign_calls m + length xs\<rparr>)"
  using assms
proof (induction xs arbitrary: so d ds m olds)
  case Nil
  then show ?case by (simp add: fun_upd_idem)
next
  case (Cons x xs)
  from Cons.prems(4) have s: "so < length ss" "ss ! so = Some x"
    "take (length xs) (drop (Suc so) ss) = map Some xs"
    using segment_Cons [of "length xs" so ss "Some x" "map Some xs"] by simp_all
  from Cons.prems(6) obtain y ys where olds: "olds = y # ys"
    by (cases olds) auto
  from Cons.prems(5) have t: "d < length ds" "ds ! d = Some y"
    "take (length xs) (drop (Suc d) ds) = map Some ys"
    using segment_Cons [of "length xs" d ds "Some y" "map Some ys"] by (simp_all add: olds)
  define m1 where
    "m1 = m\<lparr>heap := (heap m)(db := Some (ds[d := Some x])), copy_assign_calls := copy_assign_calls m + 1\<rparr>"
  have step: "copy_assign_at T (sb, so) (db, d) m = (Ret (), m1)"
    unfolding m1_def using Cons.prems s t
    by (simp add: copy_assign_at_def slot_block put_block)
  have "copy_loop T (sb, Suc so) (length xs) (db, Suc d) m1 =
      (Ret (), m1\<lparr>heap := (heap m1)(db := Some (overwrite (Suc d) (map Some xs) (ds[d := Some x]))),
                 copy_assign_calls := copy_assign_calls m1 + length xs\<rparr>)"
    using Cons.prems s t olds by (intro Cons.IH [where olds = ys]) (simp_all add: m1_def)
  then have "copy_loop T (sb, so) (length (x # xs)) (db, d) m =
      (Ret (), m1\<lparr>heap := (heap m1)(db := Some (overwrite (Suc d) (map Some xs) (ds[d := Some x]))),
                 copy_assign_calls := copy_assign_calls m1 + length xs\<rparr>)"
    by (simp add: step ptr_add_def)
  also have "m1\<lparr>heap := (heap m1)(db := Some (overwrite (Suc d) (map Some xs) (ds[d := Some x]))),
                 copy_assign_calls := copy_assign_calls m1 + length xs\<rparr> =
      m\<lparr>heap := (heap m)(db := Some (overwrite d (map Some (x # xs)) ds)),
        copy_assign_calls := copy_assign_calls m + length (x # xs)\<rparr>"
    unfolding m1_def using t(1) by (simp add: overwrite_Cons)
  finally show ?case .
qed

text \<open>The copy constructor of \<^verbatim>\<open>Vector\<close>.\<close>

lemma Vector_copy_fails:
  assumes wf: "wf_mem m" and rep: "represents r m ys"
    and th: "avail m < length ys \<or> (\<exists>y\<in>set ys. copy_throws T y)"
  shows "\<exists>e m'. Vector_copy T r m = (Throw e, m') \<and> heap m' = heap m \<and> avail m' = avail m"
proof (cases "avail m < length ys")
  case True
  then have pos: "0 < length ys" by (cases ys) simp_all
  from rep have sz: "size_m r = length ys" by (simp add: represents_def)
  have "Vector_copy T r m = (Throw bad_alloc, m)"
    using Allocate_Throw [OF pos True wf_mem_sizeof [OF wf] represents_no_wrap [OF wf rep]]
    by (simp add: Vector_copy_def RawMemory_sized_def sz)
  then show ?thesis by blast
next
  case False
  with th have ex: "\<exists>y\<in>set ys. copy_throws T y" by simp
  then have ne: "ys \<noteq> []" by auto
  note f = wf_mem_fresh [OF wf]
  from rep have len: "size_m r = length ys" "length ys \<le> Capacity r"
    by (simp_all add: represents_def Capacity_def)
  with ne have "Capacity r \<noteq> 0" by (cases ys) auto
  with rep have old: "heap m (buffer_m (data_m r)) = Some (block_of ys (Capacity r))"
    by (simp add: represents_def Capacity_def)
  with f have neq: "buffer_m (data_m r) \<noteq> brk m" by auto
  define n where "n = length ys"
  have n: "0 < n" "n \<le> avail m" "0 < sizeof_T m" "n * sizeof_T m < 2 ^ 64"
    using ne False wf_mem_sizeof [OF wf] represents_no_wrap [OF wf rep] by (simp_all add: n_def)
  define m1 where "m1 = m\<lparr>heap := (heap m)(brk m := Some (replicate n None)),
                          brk := brk m + 1, avail := avail m - n\<rparr>"
  have alloc: "RawMemory_sized n m = (Ret \<lparr>buffer_m = brk m, capacity_m = n\<rparr>, m1)"
    using n by (simp add: RawMemory_sized_def Allocate_Ret m1_def)
  have h1: "heap m1 (buffer_m (data_m r)) = Some (block_of ys (Capacity r))"
    "heap m1 (brk m) = Some (replicate n None)"
    using old neq by (simp_all add: m1_def)
  have seg: "take (length ys) (drop 0 (block_of ys (Capacity r))) = map Some ys" by simp
  have room: "0 + length ys \<le> length (replicate n (None :: 'a option))" by (simp add: n_def)
  define m2 where "m2 = m1\<lparr>heap := (heap m1)(brk m := Some (overwrite 0 (replicate (copied_before_throw T ys) None) (replicate n None))),
              copy_ctor_calls := copy_ctor_calls m1 + copied_before_throw T ys,
              dtor_calls := dtor_calls m1 + copied_before_throw T ys\<rparr>"
  have u: "uninitialized_copy_n T (buffer_m (data_m r), 0) n (brk m, 0) m1 = (Throw elem_error, m2)"
    using uninitialized_copy_n_Throw [OF h1 neq seg room ex] by (simp add: m2_def n_def)
  have kl: "copied_before_throw T ys \<le> n"
    by (simp add: copied_before_throw_def n_def length_takeWhile_le)
  define m3 where "m3 = m2\<lparr>heap := (heap m2)(brk m := None), avail := avail m2 + n\<rparr>"
  have d: "RawMemory_dtor \<lparr>buffer_m = brk m, capacity_m = n\<rparr> m2 = (Ret (), m3)"
    using f kl by (simp add: RawMemory_dtor_def Deallocate_def m2_def m3_def length_overwrite_ge)
  have "Vector_copy T r m = (Throw elem_error, m3)"
    by (simp add: Vector_copy_def len(1) n_def [symmetric] alloc GetAddress_def u d scope_exit_def)
  moreover have "heap m3 = heap m" "avail m3 = avail m"
    using f n by (simp_all add: m3_def m2_def m1_def fun_upd_idem)
  ultimately show ?thesis by blast
qed

lemma Vector_copy_Ret:
  assumes wf: "wf_mem m" and rep: "represents r m ys"
    and av: "length ys \<le> avail m" and nt: "\<forall>y\<in>set ys. \<not> copy_throws T y"
  shows "\<exists>c m'. Vector_copy T r m = (Ret c, m') \<and> represents c m' ys \<and> Capacity c = length ys \<and>
           (\<forall>b. b \<noteq> buffer_m (data_m c) \<longrightarrow> heap m' b = heap m b) \<and>
           (buffer_m (data_m c) = 0 \<or> buffer_m (data_m c) = brk m) \<and> wf_mem m'"
proof (cases "ys = []")
  case True
  with rep have "Vector_copy T r m = (Ret \<lparr>data_m = \<lparr>buffer_m = 0, capacity_m = 0\<rparr>, size_m = 0\<rparr>, m)"
    by (simp add: Vector_copy_def RawMemory_sized_def Allocate_def represents_def)
  with True wf show ?thesis by (simp add: represents_def Capacity_def)
next
  case ne: False
  note f = wf_mem_fresh [OF wf]
  from rep have len: "size_m r = length ys" "length ys \<le> Capacity r"
    by (simp_all add: represents_def Capacity_def)
  with ne have "Capacity r \<noteq> 0" by (cases ys) auto
  with rep have old: "heap m (buffer_m (data_m r)) = Some (block_of ys (Capacity r))"
    by (simp add: represents_def Capacity_def)
  with f have neq: "buffer_m (data_m r) \<noteq> brk m" by auto
  define n where "n = length ys"
  have n: "0 < n" "n \<le> avail m" "0 < sizeof_T m" "n * sizeof_T m < 2 ^ 64"
    using ne av wf_mem_sizeof [OF wf] represents_no_wrap [OF wf rep] by (simp_all add: n_def)
  define m1 where "m1 = m\<lparr>heap := (heap m)(brk m := Some (replicate n None)),
                          brk := brk m + 1, avail := avail m - n\<rparr>"
  have alloc: "RawMemory_sized n m = (Ret \<lparr>buffer_m = brk m, capacity_m = n\<rparr>, m1)"
    using n by (simp add: RawMemory_sized_def Allocate_Ret m1_def)
  have h1: "heap m1 (buffer_m (data_m r)) = Some (block_of ys (Capacity r))"
    "heap m1 (brk m) = Some (replicate n None)"
    using old neq by (simp_all add: m1_def)
  have seg: "take (length ys) (drop 0 (block_of ys (Capacity r))) = map Some ys" by simp
  have room: "0 + length ys \<le> length (replicate n (None :: 'a option))" by (simp add: n_def)
  define m2 where "m2 = m1\<lparr>heap := (heap m1)(brk m := Some (overwrite 0 (map Some ys) (replicate n None))),
              copy_ctor_calls := copy_ctor_calls m1 + length ys\<rparr>"
  have u: "uninitialized_copy_n T (buffer_m (data_m r), 0) n (brk m, 0) m1 = (Ret (), m2)"
    using uninitialized_copy_n_Ret [OF h1 neq seg room nt] by (simp add: m2_def n_def)
  have e: "Vector_copy T r m = (Ret \<lparr>data_m = \<lparr>buffer_m = brk m, capacity_m = n\<rparr>, size_m = n\<rparr>, m2)"
    by (simp add: Vector_copy_def len(1) n_def [symmetric] alloc GetAddress_def u)
  have w: "\<forall>b. brk m \<le> b \<longrightarrow> heap m b = None"
    "\<forall>b xs. heap m b = Some xs \<longrightarrow> length xs * sizeof_T m < 2 ^ 64"
    using wf by (simp_all add: wf_mem_def)
  have "represents \<lparr>data_m = \<lparr>buffer_m = brk m, capacity_m = n\<rparr>, size_m = n\<rparr> m2 ys"
    using n f by (simp add: represents_def m2_def n_def overwrite_block_of)
  moreover have "wf_mem m2"
    using f w n by (auto simp: wf_mem_def m2_def m1_def n_def overwrite_block_of)
  moreover have "\<forall>b. b \<noteq> brk m \<longrightarrow> heap m2 b = heap m b" by (simp add: m2_def m1_def)
  ultimately show ?thesis using e by (simp add: Capacity_def n_def)
qed

text \<open>Copy assignment when the source is longer than the capacity of the receiver.\<close>

lemma copy_assign_rebuild_fails:
  assumes ne: "this \<noteq> rhs" and wf: "wf_mem m" and rep: "represents (st rhs) m ys"
    and gt: "Capacity (st this) < size_m (st rhs)"
    and th: "avail m < length ys \<or> (\<exists>y\<in>set ys. copy_throws T y)"
  shows "\<exists>e m'. copy_assign_vector_h T this rhs (st, m) = (Throw e, (st, m')) \<and>
           heap m' = heap m \<and> avail m' = avail m"
proof -
  from Vector_copy_fails [OF wf rep th] obtain e m' where
    "Vector_copy T (st rhs) m = (Throw e, m')" "heap m' = heap m" "avail m' = avail m"
    by blast
  with ne gt show ?thesis by (simp add: copy_assign_vector_h_def Capacity_def)
qed

lemma Vector_dtor_Ret:
  assumes wf: "heap m 0 = None" and rep: "represents v m xs"
  shows "Vector_dtor v m =
           (Ret (), m\<lparr>heap := (heap m)(buffer_m (data_m v) := None),
                      avail := avail m + Capacity v, dtor_calls := dtor_calls m + length xs\<rparr>)"
proof (cases "Capacity v = 0")
  case True
  with rep have "xs = []" "buffer_m (data_m v) = 0" "size_m v = 0"
    by (simp_all add: represents_def Capacity_def)
  with True wf show ?thesis
    by (simp add: Vector_dtor_def and_then_def RawMemory_dtor_def Deallocate_def fun_upd_idem)
next
  case False
  with rep have old: "buffer_m (data_m v) \<noteq> 0"
    "heap m (buffer_m (data_m v)) = Some (block_of xs (Capacity v))"
    and len: "size_m v = length xs" "length xs \<le> Capacity v"
    by (simp_all add: represents_def Capacity_def)
  have seg: "take (length xs) (drop 0 (block_of xs (Capacity v))) = map Some xs" by simp
  have d: "destroy_n (buffer_m (data_m v), 0) (length xs) m =
      (Ret (), m\<lparr>heap := (heap m)(buffer_m (data_m v) :=
                    Some (overwrite 0 (replicate (length xs) None) (block_of xs (Capacity v)))),
                 dtor_calls := dtor_calls m + length xs\<rparr>)"
    by (rule destroy_n_Ret [OF old(2) seg])
  show ?thesis
    using old len
    by (simp add: Vector_dtor_def and_then_def GetAddress_def d RawMemory_dtor_def Deallocate_def
        length_overwrite_ge)
qed

lemma copy_assign_rebuild_Ret:
  assumes ne: "this \<noteq> rhs" and wf: "wf_mem m"
    and rep: "represents (st rhs) m ys" and rept: "represents (st this) m xs"
    and gt: "Capacity (st this) < size_m (st rhs)"
    and sep: "separate (st this) (st rhs)"
    and av: "length ys \<le> avail m" and nt: "\<forall>y\<in>set ys. \<not> copy_throws T y"
  shows "\<exists>v' m'. copy_assign_vector_h T this rhs (st, m) = (Ret (), (st(this := v'), m')) \<and>
           represents v' m' ys \<and> Capacity v' = length ys \<and> represents (st rhs) m' ys \<and>
           copy_ctor_calls m' = copy_ctor_calls m + length ys \<and>
           copy_assign_calls m' = copy_assign_calls m"
proof -
  note f = wf_mem_fresh [OF wf]
  from rep gt have ysne: "ys \<noteq> []" by (auto simp: represents_def)
  from rep have leny: "size_m (st rhs) = length ys" "length ys \<le> Capacity (st rhs)"
    by (simp_all add: represents_def Capacity_def)
  with ysne have cr: "Capacity (st rhs) \<noteq> 0" by (cases ys) auto
  with rep have rb: "buffer_m (data_m (st rhs)) \<noteq> 0"
    "heap m (buffer_m (data_m (st rhs))) = Some (block_of ys (Capacity (st rhs)))"
    by (simp_all add: represents_def Capacity_def)
  with sep have dist: "buffer_m (data_m (st this)) \<noteq> buffer_m (data_m (st rhs))"
    by (auto simp: separate_def)
  define n where "n = length ys"
  have n: "0 < n" "n \<le> avail m" "0 < sizeof_T m" "n * sizeof_T m < 2 ^ 64"
    using ysne av wf_mem_sizeof [OF wf] represents_no_wrap [OF wf rep] by (simp_all add: n_def)
  define m1 where "m1 = m\<lparr>heap := (heap m)(brk m := Some (block_of ys n)),
                          brk := brk m + 1, avail := avail m - n,
                          copy_ctor_calls := copy_ctor_calls m + n\<rparr>"
  define c where "c = \<lparr>data_m = \<lparr>buffer_m = brk m, capacity_m = n\<rparr>, size_m = n\<rparr>"
  have vc: "Vector_copy T (st rhs) m = (Ret c, m1)"
  proof -
    from rb f have neq: "buffer_m (data_m (st rhs)) \<noteq> brk m" by auto
    define ma where "ma = m\<lparr>heap := (heap m)(brk m := Some (replicate n None)),
                          brk := brk m + 1, avail := avail m - n\<rparr>"
    have alloc: "RawMemory_sized n m = (Ret \<lparr>buffer_m = brk m, capacity_m = n\<rparr>, ma)"
      using n by (simp add: RawMemory_sized_def Allocate_Ret ma_def)
    have h1: "heap ma (buffer_m (data_m (st rhs))) = Some (block_of ys (Capacity (st rhs)))"
      "heap ma (brk m) = Some (replicate n None)"
      using rb neq by (simp_all add: ma_def)
    have seg: "take (length ys) (drop 0 (block_of ys (Capacity (st rhs)))) = map Some ys" by simp
    have room: "0 + length ys \<le> length (replicate n (None :: 'a option))" by (simp add: n_def)
    have u: "uninitialized_copy_n T (buffer_m (data_m (st rhs)), 0) n (brk m, 0) ma = (Ret (), m1)"
      using uninitialized_copy_n_Ret [OF h1 neq seg room nt]
      by (simp add: m1_def ma_def n_def overwrite_block_of)
    show ?thesis
      by (simp add: Vector_copy_def leny(1) n_def [symmetric] alloc GetAddress_def u c_def)
  qed
  have tb: "buffer_m (data_m (st this)) \<noteq> brk m"
  proof (cases "Capacity (st this) = 0")
    case True
    with rept f show ?thesis by (simp add: represents_def Capacity_def)
  next
    case False
    with rept have "heap m (buffer_m (data_m (st this))) \<noteq> None"
      by (simp add: represents_def Capacity_def)
    with f show ?thesis by auto
  qed
  have rept1: "represents (st this) m1 xs"
    using rept tb by (simp add: represents_def m1_def)
  have h0: "heap m1 0 = None" using f by (simp add: m1_def)
  define m2 where "m2 = m1\<lparr>heap := (heap m1)(buffer_m (data_m (st this)) := None),
                      avail := avail m1 + Capacity (st this), dtor_calls := dtor_calls m1 + length xs\<rparr>"
  have vd: "Vector_dtor (st this) m1 = (Ret (), m2)"
    unfolding m2_def by (rule Vector_dtor_Ret [OF h0 rept1])
  have e: "copy_assign_vector_h T this rhs (st, m) = (Ret (), (st(this := c), m2))"
    using ne gt by (simp add: copy_assign_vector_h_def Capacity_def [symmetric] vc Swap_eq vd)
  have "represents c m2 ys"
    using n f tb by (simp add: represents_def c_def m2_def m1_def n_def)
  moreover have "represents (st rhs) m2 ys"
    using rep rb f dist by (auto simp: represents_def m2_def m1_def)
  moreover have "Capacity c = length ys" by (simp add: c_def Capacity_def n_def)
  moreover have "copy_ctor_calls m2 = copy_ctor_calls m + length ys"
    "copy_assign_calls m2 = copy_assign_calls m"
    by (simp_all add: m2_def m1_def n_def)
  ultimately show ?thesis using e by blast
qed

text \<open>Copy assignment when the source fits the capacity of the receiver.\<close>

lemma copy_assign_overwrite_allocation_free:
  assumes ne: "this \<noteq> rhs" and le: "size_m (st rhs) \<le> Capacity (st this)"
    and r: "copy_assign_vector_h T this rhs (st, m) = (r, (st', m'))"
  shows "r \<noteq> Throw bad_alloc \<and> brk m' = brk m \<and> avail m' = avail m \<and> (r \<noteq> Ret () \<longrightarrow> st' = st)"
proof -
  define body where "body =
     (if size_m (st rhs) < size_m (st this) then
        and_then
          (copy_loop T (RawMemory_plus (data_m (st rhs)) 0) (size_m (st rhs))
             (RawMemory_plus (data_m (st this)) 0))
          (\<lambda>_. destroy_n (RawMemory_plus (data_m (st this)) (size_m (st rhs)))
             (size_m (st this) - size_m (st rhs)))
      else if size_m (st rhs) \<ge> size_m (st this) then
        and_then
          (copy_loop T (RawMemory_plus (data_m (st rhs)) 0) (size_m (st this))
             (RawMemory_plus (data_m (st this)) 0))
          (\<lambda>_. uninitialized_copy_n T
             (RawMemory_plus (data_m (st rhs)) (size_m (st this)))
             (size_m (st rhs) - size_m (st this))
             (RawMemory_plus (data_m (st this)) (size_m (st this))))
      else (\<lambda>m. (Ret (), m)))"
  have af: "allocation_free body"
    unfolding body_def
    by (auto intro!: allocation_free_and_then allocation_free_copy_loop allocation_free_destroy_n
        allocation_free_uninitialized_copy_n)
  obtain rb mb where b: "body m = (rb, mb)" by (cases "body m")
  have "copy_assign_vector_h T this rhs (st, m) =
      (case body m of
         (Ret _, m1) \<Rightarrow> (Ret (), (st(this := (st this)\<lparr>size_m := size_m (st rhs)\<rparr>), m1))
       | (Throw e, m1) \<Rightarrow> (Throw e, (st, m1))
       | (Fault, m1) \<Rightarrow> (Fault, (st, m1)))"
    using ne le unfolding body_def by (simp add: copy_assign_vector_h_def Capacity_def)
  with r b allocation_freeD [OF af b] show ?thesis
    by (cases rb) auto
qed

lemma copy_loop_prefix:
  assumes rep: "represents r m ys" and hb: "heap m tb = Some ds"
    and olds: "take k ds = map Some olds" "length olds = k" and k: "k \<le> length ys"
    and neq: "buffer_m (data_m r) \<noteq> tb"
    and nt: "\<forall>y\<in>set ys. \<not> copy_assign_throws T y"
  shows "copy_loop T (buffer_m (data_m r), 0) k (tb, 0) m =
           (Ret (), m\<lparr>heap := (heap m)(tb := Some (overwrite 0 (map Some (take k ys)) ds)),
                      copy_assign_calls := copy_assign_calls m + k\<rparr>)"
proof (cases "k = 0")
  case True
  with hb show ?thesis by (simp add: fun_upd_idem)
next
  case False
  with k rep have "Capacity r \<noteq> 0" by (auto simp: represents_def Capacity_def)
  with rep have rb: "heap m (buffer_m (data_m r)) = Some (block_of ys (Capacity r))"
    by (simp add: represents_def Capacity_def)
  have lk: "length (take k ys) = k" using k by simp
  have seg: "take (length (take k ys)) (drop 0 (block_of ys (Capacity r))) = map Some (take k ys)"
    using k by (simp add: block_of_def take_map)
  have seg': "take (length (take k ys)) (drop 0 ds) = map Some olds" using olds k by simp
  have nt': "\<forall>x\<in>set (take k ys). \<not> copy_assign_throws T x"
    using nt by (auto dest: in_set_takeD)
  show ?thesis
    using copy_loop_Ret [OF rb hb neq seg seg' _ nt'] olds(2) lk by simp
qed

lemma uninitialized_copy_n_tail:
  assumes rep: "represents r m ys" and hb: "heap m tb = Some ds"
    and k: "k \<le> length ys" "length ys \<le> length ds"
    and neq: "buffer_m (data_m r) \<noteq> tb"
    and nt: "\<forall>y\<in>set ys. \<not> copy_throws T y"
  shows "uninitialized_copy_n T (buffer_m (data_m r), k) (length ys - k) (tb, k) m =
           (Ret (), m\<lparr>heap := (heap m)(tb := Some (overwrite k (map Some (drop k ys)) ds)),
                      copy_ctor_calls := copy_ctor_calls m + (length ys - k)\<rparr>)"
proof (cases "length ys - k = 0")
  case True
  with hb k show ?thesis by (simp add: fun_upd_idem)
next
  case False
  with rep have "Capacity r \<noteq> 0" by (auto simp: represents_def Capacity_def)
  with rep have rb: "heap m (buffer_m (data_m r)) = Some (block_of ys (Capacity r))"
    by (simp add: represents_def Capacity_def)
  have seg: "take (length (drop k ys)) (drop k (block_of ys (Capacity r))) = map Some (drop k ys)"
    using drop_block_of [OF k(1)] by simp
  have room: "k + length (drop k ys) \<le> length ds" using k by simp
  have nt': "\<forall>x\<in>set (drop k ys). \<not> copy_throws T x"
    using nt by (auto dest: in_set_dropD)
  show ?thesis
    using uninitialized_copy_n_Ret [OF rb hb neq seg room nt'] by simp
qed

lemma overwrite_assign_shorter:
  assumes "length ys < length xs" "length xs \<le> c"
  shows "overwrite (length ys) (replicate (length xs - length ys) None)
           (overwrite 0 (map Some ys) (block_of xs c)) = block_of ys c"
    and "take (length (drop (length ys) xs))
           (drop (length ys) (overwrite 0 (map Some ys) (block_of xs c))) =
         map Some (drop (length ys) xs)"
  using assms
  by (simp_all add: overwrite_def block_of_def drop_map replicate_add [symmetric])

lemma overwrite_assign_longer:
  assumes "length xs \<le> length ys" "length ys \<le> c"
  shows "overwrite (length xs) (map Some (drop (length xs) ys))
           (overwrite 0 (map Some (take (length xs) ys)) (block_of xs c)) = block_of ys c"
proof -
  have "map Some (take (length xs) ys) @ map Some (drop (length xs) ys) = map Some ys"
    by (simp add: map_append [symmetric] del: map_append)
  with assms show ?thesis
    by (simp add: overwrite_def block_of_def min_def)
qed

lemma copy_assign_overwrite_Ret:
  assumes ne: "this \<noteq> rhs"
    and rep: "represents (st rhs) m ys" and rept: "represents (st this) m xs"
    and le: "size_m (st rhs) \<le> Capacity (st this)"
    and sep: "separate (st this) (st rhs)"
    and nt: "\<forall>y\<in>set ys. \<not> copy_assign_throws T y" "\<forall>y\<in>set ys. \<not> copy_throws T y"
  shows "\<exists>m'. copy_assign_vector_h T this rhs (st, m) =
             (Ret (), (st(this := (st this)\<lparr>size_m := length ys\<rparr>), m')) \<and>
           represents ((st this)\<lparr>size_m := length ys\<rparr>) m' ys \<and> represents (st rhs) m' ys"
proof -
  let ?t = "st this" and ?r = "st rhs"
  from rep rept le have len: "size_m ?r = length ys" "size_m ?t = length xs"
    "length ys \<le> Capacity ?t" "length xs \<le> Capacity ?t"
    by (simp_all add: represents_def Capacity_def)
  show ?thesis
  proof (cases "Capacity ?t = 0")
    case True
    with len have e: "ys = []" "xs = []" by simp_all
    have "copy_assign_vector_h T this rhs (st, m) = (Ret (), (st(this := ?t\<lparr>size_m := length ys\<rparr>), m))"
      using ne True len e by (simp add: copy_assign_vector_h_def Capacity_def and_then_def)
    moreover have "represents (?t\<lparr>size_m := length ys\<rparr>) m ys"
      using rept e by (simp add: represents_def)
    ultimately show ?thesis using rep by blast
  next
    case False
    with rept have tb: "buffer_m (data_m ?t) \<noteq> 0"
      "heap m (buffer_m (data_m ?t)) = Some (block_of xs (Capacity ?t))"
      by (simp_all add: represents_def Capacity_def)
    with sep have neq: "buffer_m (data_m ?r) \<noteq> buffer_m (data_m ?t)"
      by (auto simp: separate_def)
    show ?thesis
    proof (cases "length ys < length xs")
      case True
      have olds: "take (length ys) (block_of xs (Capacity ?t)) = map Some (take (length ys) xs)"
        using True by (simp add: block_of_def take_map)
      define m1 where "m1 = m\<lparr>heap := (heap m)(buffer_m (data_m ?t) :=
            Some (overwrite 0 (map Some ys) (block_of xs (Capacity ?t)))),
          copy_assign_calls := copy_assign_calls m + length ys\<rparr>"
      have c: "copy_loop T (buffer_m (data_m ?r), 0) (length ys) (buffer_m (data_m ?t), 0) m = (Ret (), m1)"
        using copy_loop_prefix [OF rep tb(2) olds _ _ neq nt(1)] True by (simp add: m1_def)
      have h1: "heap m1 (buffer_m (data_m ?t)) = Some (overwrite 0 (map Some ys) (block_of xs (Capacity ?t)))"
        by (simp add: m1_def)
      define m2 where "m2 = m1\<lparr>heap := (heap m1)(buffer_m (data_m ?t) := Some (block_of ys (Capacity ?t))),
          dtor_calls := dtor_calls m1 + (length xs - length ys)\<rparr>"
      have d: "destroy_n (buffer_m (data_m ?t), length ys) (length xs - length ys) m1 = (Ret (), m2)"
        using destroy_n_Ret [OF h1 overwrite_assign_shorter(2) [OF True len(4)]]
          overwrite_assign_shorter(1) [OF True len(4)]
        by (simp add: m2_def)
      have "copy_assign_vector_h T this rhs (st, m) = (Ret (), (st(this := ?t\<lparr>size_m := length ys\<rparr>), m2))"
        using ne True len
        by (simp add: copy_assign_vector_h_def Capacity_def [symmetric] RawMemory_plus_def and_then_def c d)
      moreover have "represents (?t\<lparr>size_m := length ys\<rparr>) m2 ys"
        using tb len False by (simp add: represents_def m2_def Capacity_def)
      moreover have "represents ?r m2 ys"
        using rep neq by (simp add: represents_def m2_def m1_def)
      ultimately show ?thesis by blast
    next
      case ge: False
      have olds: "take (length xs) (block_of xs (Capacity ?t)) = map Some xs" by simp
      define m1 where "m1 = m\<lparr>heap := (heap m)(buffer_m (data_m ?t) :=
            Some (overwrite 0 (map Some (take (length xs) ys)) (block_of xs (Capacity ?t)))),
          copy_assign_calls := copy_assign_calls m + length xs\<rparr>"
      have c: "copy_loop T (buffer_m (data_m ?r), 0) (length xs) (buffer_m (data_m ?t), 0) m = (Ret (), m1)"
        using copy_loop_prefix [OF rep tb(2) olds _ _ neq nt(1)] ge by (simp add: m1_def)
      have h1: "heap m1 (buffer_m (data_m ?t)) =
          Some (overwrite 0 (map Some (take (length xs) ys)) (block_of xs (Capacity ?t)))"
        by (simp add: m1_def)
      have rep1: "represents ?r m1 ys" using rep neq by (simp add: represents_def m1_def)
      have l1: "length ys \<le> length (overwrite 0 (map Some (take (length xs) ys)) (block_of xs (Capacity ?t)))"
        using len ge by (simp add: length_overwrite_ge)
      define m2 where "m2 = m1\<lparr>heap := (heap m1)(buffer_m (data_m ?t) := Some (block_of ys (Capacity ?t))),
          copy_ctor_calls := copy_ctor_calls m1 + (length ys - length xs)\<rparr>"
      have u: "uninitialized_copy_n T (buffer_m (data_m ?r), length xs) (length ys - length xs)
            (buffer_m (data_m ?t), length xs) m1 = (Ret (), m2)"
        using uninitialized_copy_n_tail [OF rep1 h1 _ l1 neq nt(2), of "length xs"] ge
          overwrite_assign_longer [of xs ys "Capacity ?t"] len
        by (simp add: m2_def)
      have "copy_assign_vector_h T this rhs (st, m) = (Ret (), (st(this := ?t\<lparr>size_m := length ys\<rparr>), m2))"
        using ne ge len
        by (simp add: copy_assign_vector_h_def Capacity_def [symmetric] RawMemory_plus_def and_then_def c u)
      moreover have "represents (?t\<lparr>size_m := length ys\<rparr>) m2 ys"
        using tb len False by (simp add: represents_def m2_def Capacity_def)
      moreover have "represents ?r m2 ys"
        using rep neq by (simp add: represents_def m2_def m1_def)
      ultimately show ?thesis by blast
    qed
  qed
qed

lemma wf_mem_assign: "wf_mem assign_mem"
  by (auto simp: wf_mem_def assign_mem_def empty_mem_def split: if_splits)

lemma represents_assign:
  "represents (assign_vectors 0) assign_mem [1, 2]"
  "represents (assign_vectors 1) assign_mem [5, - 3]"
  "represents (assign_vectors 2) assign_mem []"
  by (simp_all add: represents_def assign_vectors_def assign_mem_def block_of_def empty_mem_def
      Vector_default_def RawMemory_default_def eval_nat_numeral)

text \<open>
  C5, as the claim states it, fails in its second half. The receiver \<open>[1, 2]\<close> has
  capacity 2 and the source \<open>[5, - 3]\<close> has size 2, so the assignment takes the
  element-wise path; the copy assignment of the element type throws for \<open>- 3\<close>, and the
  assignment of the vectors throws, in both drafts, leaving the receiver with \<open>[5, 2]\<close>.
\<close>

theorem copy_assign_overwrite_throws:
  "size_m (assign_vectors 1) \<le> Capacity (assign_vectors 0) \<and>
   fst (copy_assign_vector_h fragile_type 0 1 (assign_vectors, assign_mem)) = Throw elem_error \<and>
   fst (copy_assign_part_000 fragile_type 0 1 (assign_vectors, assign_mem)) = Throw elem_error \<and>
   elements (assign_vectors 0) assign_mem = [Some (Some 1), Some (Some 2)] \<and>
   elements (fst (snd (copy_assign_vector_h fragile_type 0 1 (assign_vectors, assign_mem))) 0)
     (snd (snd (copy_assign_vector_h fragile_type 0 1 (assign_vectors, assign_mem)))) =
     [Some (Some 5), Some (Some 2)]"
  by (simp add: copy_assign_part_000_eq copy_assign_vector_h_def assign_vectors_def assign_mem_def
      fragile_type_def prim_defs eval_nat_numeral)

text \<open>
  C5, amended. For two distinct vectors, when the size of the source exceeds the capacity
  of the receiver, a failed allocation or a throwing element copy constructor makes the
  assignment throw with the store of objects, every block and the available slots as
  before: the receiver is untouched; when neither happens the receiver ends with a copy
  of the source's elements in a block of exactly that many slots, built with one copy
  construction per element and no assignment. When the size of the source is within the
  capacity of the receiver the assignment never ends in \<^verbatim>\<open>std::bad_alloc\<close> and leaves the
  allocator's state alone, and when it does not return the members of the receiver
  (size and capacity) are as before; it returns, with the receiver holding the source's
  elements, when neither the copy assignment nor the copy constructor of the element
  type throws for an element of the source. The two drafts agree on every input.
\<close>

theorem copy_assign_contract:
  "this \<noteq> rhs \<longrightarrow>
     (wf_mem m \<and> represents (st rhs) m ys \<and> Capacity (st this) < Size (st rhs) \<longrightarrow>
        (avail m < length ys \<or> (\<exists>y\<in>set ys. copy_throws T y) \<longrightarrow>
           (\<exists>e m'. copy_assign_vector_h T this rhs (st, m) = (Throw e, (st, m')) \<and>
              heap m' = heap m \<and> avail m' = avail m)) \<and>
        (length ys \<le> avail m \<and> (\<forall>y\<in>set ys. \<not> copy_throws T y) \<and>
         represents (st this) m xs \<and> separate (st this) (st rhs) \<longrightarrow>
           (\<exists>v' m'. copy_assign_vector_h T this rhs (st, m) = (Ret (), (st(this := v'), m')) \<and>
              represents v' m' ys \<and> Capacity v' = length ys \<and> represents (st rhs) m' ys \<and>
              copy_ctor_calls m' = copy_ctor_calls m + length ys \<and>
              copy_assign_calls m' = copy_assign_calls m))) \<and>
     (Size (st rhs) \<le> Capacity (st this) \<longrightarrow>
        (copy_assign_vector_h T this rhs (st, m) = (r, (st', m')) \<longrightarrow>
           r \<noteq> Throw bad_alloc \<and> brk m' = brk m \<and> avail m' = avail m \<and> (r \<noteq> Ret () \<longrightarrow> st' = st)) \<and>
        (represents (st rhs) m ys \<and> represents (st this) m xs \<and> separate (st this) (st rhs) \<and>
         (\<forall>y\<in>set ys. \<not> copy_assign_throws T y \<and> \<not> copy_throws T y) \<longrightarrow>
           (\<exists>m'. copy_assign_vector_h T this rhs (st, m) =
                    (Ret (), (st(this := (st this)\<lparr>size_m := length ys\<rparr>), m')) \<and>
              represents ((st this)\<lparr>size_m := length ys\<rparr>) m' ys \<and> represents (st rhs) m' ys))) \<and>
     copy_assign_part_000 T this rhs (st, m) = copy_assign_vector_h T this rhs (st, m)"
proof (intro impI conjI; (elim conjE)?)
  assume "this \<noteq> rhs" "wf_mem m" "represents (st rhs) m ys" "Capacity (st this) < Size (st rhs)"
    "avail m < length ys \<or> (\<exists>y\<in>set ys. copy_throws T y)"
  then show "\<exists>e m'. copy_assign_vector_h T this rhs (st, m) = (Throw e, (st, m')) \<and>
              heap m' = heap m \<and> avail m' = avail m"
    by (intro copy_assign_rebuild_fails) (simp_all add: Size_def)
next
  assume "this \<noteq> rhs" "wf_mem m" "represents (st rhs) m ys" "Capacity (st this) < Size (st rhs)"
    "length ys \<le> avail m" "\<forall>y\<in>set ys. \<not> copy_throws T y"
    "represents (st this) m xs" "separate (st this) (st rhs)"
  then show "\<exists>v' m'. copy_assign_vector_h T this rhs (st, m) = (Ret (), (st(this := v'), m')) \<and>
              represents v' m' ys \<and> Capacity v' = length ys \<and> represents (st rhs) m' ys \<and>
              copy_ctor_calls m' = copy_ctor_calls m + length ys \<and>
              copy_assign_calls m' = copy_assign_calls m"
    by (intro copy_assign_rebuild_Ret) (simp_all add: Size_def)
next
  assume "this \<noteq> rhs" "Size (st rhs) \<le> Capacity (st this)"
    "copy_assign_vector_h T this rhs (st, m) = (r, (st', m'))"
  then show "r \<noteq> Throw bad_alloc" "brk m' = brk m" "avail m' = avail m" "r \<noteq> Ret () \<Longrightarrow> st' = st"
    using copy_assign_overwrite_allocation_free [of this rhs st T m r st' m']
    by (simp_all add: Size_def)
next
  assume "this \<noteq> rhs" "Size (st rhs) \<le> Capacity (st this)"
    "represents (st rhs) m ys" "represents (st this) m xs" "separate (st this) (st rhs)"
    "\<forall>y\<in>set ys. \<not> copy_assign_throws T y \<and> \<not> copy_throws T y"
  then show "\<exists>m'. copy_assign_vector_h T this rhs (st, m) =
                    (Ret (), (st(this := (st this)\<lparr>size_m := length ys\<rparr>), m')) \<and>
              represents ((st this)\<lparr>size_m := length ys\<rparr>) m' ys \<and> represents (st rhs) m' ys"
    by (intro copy_assign_overwrite_Ret) (simp_all add: Size_def)
next
  show "copy_assign_part_000 T this rhs (st, m) = copy_assign_vector_h T this rhs (st, m)"
    by (rule copy_assign_part_000_eq)
qed

theorem copy_assign_contract_witness:
  "(2::nat) \<noteq> 1 \<and> wf_mem assign_mem \<and> represents (assign_vectors 1) assign_mem [5, - 3] \<and>
   Capacity (assign_vectors 2) < Size (assign_vectors 1) \<and>
   (\<exists>y\<in>set [5, - 3]. copy_throws fragile_type y) \<and>
   fst (copy_assign_vector_h fragile_type 2 1 (assign_vectors, assign_mem)) = Throw elem_error \<and>
   fst (snd (copy_assign_vector_h fragile_type 2 1 (assign_vectors, assign_mem))) = assign_vectors \<and>
   heap (snd (snd (copy_assign_vector_h fragile_type 2 1 (assign_vectors, assign_mem)))) = heap assign_mem \<and>
   length [5, - 3 :: int] \<le> avail assign_mem \<and> \<not> copy_throws int_type 5 \<and> \<not> copy_throws int_type (- 3) \<and>
   represents (assign_vectors 2) assign_mem [] \<and> separate (assign_vectors 2) (assign_vectors 1) \<and>
   observe (Ret (),
      fst (snd (copy_assign_vector_h int_type 2 1 (assign_vectors, assign_mem))) 2,
      snd (snd (copy_assign_vector_h int_type 2 1 (assign_vectors, assign_mem)))) =
     (True, 2, 2, [Some (Some 5), Some (Some (- 3))]) \<and>
   (0::nat) \<noteq> 1 \<and> Size (assign_vectors 1) \<le> Capacity (assign_vectors 0) \<and>
   fst (copy_assign_vector_h fragile_type 0 1 (assign_vectors, assign_mem)) = Throw elem_error \<and>
   fst (snd (copy_assign_vector_h fragile_type 0 1 (assign_vectors, assign_mem))) = assign_vectors \<and>
   avail (snd (snd (copy_assign_vector_h fragile_type 0 1 (assign_vectors, assign_mem)))) = avail assign_mem \<and>
   represents (assign_vectors 0) assign_mem [1, 2] \<and> separate (assign_vectors 0) (assign_vectors 1) \<and>
   \<not> copy_assign_throws int_type 5 \<and> \<not> copy_assign_throws int_type (- 3) \<and>
   observe (Ret (),
      fst (snd (copy_assign_vector_h int_type 0 1 (assign_vectors, assign_mem))) 0,
      snd (snd (copy_assign_vector_h int_type 0 1 (assign_vectors, assign_mem)))) =
     (True, 2, 2, [Some (Some 5), Some (Some (- 3))])"
proof -
  note w = wf_mem_assign represents_assign
  have h: "(2::nat) \<noteq> 1" "(0::nat) \<noteq> 1"
    "Capacity (assign_vectors 2) < Size (assign_vectors 1)"
    "Size (assign_vectors 1) \<le> Capacity (assign_vectors 0)"
    "\<exists>y\<in>set [5, - 3]. copy_throws fragile_type y"
    "avail assign_mem < length [5, - 3 :: int] \<or> (\<exists>y\<in>set [5, - 3]. copy_throws fragile_type y)"
    "length [5, - 3 :: int] \<le> avail assign_mem" "\<forall>y\<in>set [5, - 3]. \<not> copy_throws int_type y"
    "separate (assign_vectors 2) (assign_vectors 1)" "separate (assign_vectors 0) (assign_vectors 1)"
    "\<forall>y\<in>set [5, - 3]. \<not> copy_assign_throws int_type y \<and> \<not> copy_throws int_type y"
    by (simp_all add: assign_vectors_def assign_mem_def empty_mem_def Capacity_def Size_def separate_def
        fragile_type_def int_type_def Vector_default_def RawMemory_default_def)
  have c: "Capacity (assign_vectors 0) = 2" "Size (assign_vectors 0) = 2"
    by (simp_all add: assign_vectors_def Capacity_def Size_def)
  from copy_assign_contract [of 2 1 assign_mem assign_vectors "[5, - 3]" fragile_type] h w
  obtain e m1 where a1: "copy_assign_vector_h fragile_type 2 1 (assign_vectors, assign_mem) = (Throw e, (assign_vectors, m1))"
    "heap m1 = heap assign_mem"
    by blast
  have a1e: "e = elem_error"
    using a1(1) by (cases e) (simp_all add: copy_assign_vector_h_def Vector_copy_def assign_vectors_def
        assign_mem_def fragile_type_def prim_defs eval_nat_numeral)
  from copy_assign_contract [of 2 1 assign_mem assign_vectors "[5, - 3]" int_type "[]"] h w
  obtain v2 m2 where a2: "copy_assign_vector_h int_type 2 1 (assign_vectors, assign_mem) = (Ret (), (assign_vectors(2 := v2), m2))"
    "represents v2 m2 [5, - 3]" "Capacity v2 = length [5, - 3 :: int]"
    by blast
  from copy_assign_contract [of 0 1 assign_mem assign_vectors _ fragile_type _
      "fst (copy_assign_vector_h fragile_type 0 1 (assign_vectors, assign_mem))"
      "fst (snd (copy_assign_vector_h fragile_type 0 1 (assign_vectors, assign_mem)))"
      "snd (snd (copy_assign_vector_h fragile_type 0 1 (assign_vectors, assign_mem)))"] h
  have a3: "fst (copy_assign_vector_h fragile_type 0 1 (assign_vectors, assign_mem)) \<noteq> Throw bad_alloc"
    "avail (snd (snd (copy_assign_vector_h fragile_type 0 1 (assign_vectors, assign_mem)))) = avail assign_mem"
    "fst (copy_assign_vector_h fragile_type 0 1 (assign_vectors, assign_mem)) \<noteq> Ret () \<longrightarrow>
     fst (snd (copy_assign_vector_h fragile_type 0 1 (assign_vectors, assign_mem))) = assign_vectors"
    by simp_all
  have a3e: "fst (copy_assign_vector_h fragile_type 0 1 (assign_vectors, assign_mem)) = Throw elem_error"
    by (simp add: copy_assign_vector_h_def assign_vectors_def assign_mem_def fragile_type_def prim_defs
        eval_nat_numeral)
  from copy_assign_contract [of 0 1 assign_mem assign_vectors "[5, - 3]" int_type "[1, 2]"] h w
  obtain m4 where a4: "copy_assign_vector_h int_type 0 1 (assign_vectors, assign_mem) =
      (Ret (), (assign_vectors(0 := (assign_vectors 0)\<lparr>size_m := length [5, - 3 :: int]\<rparr>), m4))"
    "represents ((assign_vectors 0)\<lparr>size_m := length [5, - 3 :: int]\<rparr>) m4 [5, - 3]"
    by blast
  show ?thesis
    using h w c a1 a1e a2 a3 a3e a4(1) elements_represents [OF a2(2)] elements_represents [OF a4(2)]
    by (simp add: observe_def Size_def Capacity_def represents_def int_type_def)
qed

section \<open>Insert and Emplace\<close>

lemma Insert_part_000_is_Emplace:
  "Insert_copy_part_000 T pos val s = Emplace_part_000 T pos (Copy val) s"
  "Insert_move_part_000 T pos val s = Emplace_part_000 T pos (Move val) s"
  by (simp_all add: Insert_copy_part_000_def Insert_move_part_000_def)

lemma Insert_move_vector_h_in_place:
  "size_m v \<noteq> Capacity v \<Longrightarrow>
   Insert_move_vector_h T pos val (v, m) = Emplace_vector_h T pos (Move val) (v, m)"
  by (simp add: Insert_move_vector_h_def Emplace_vector_h_def split: option.splits)

lemma and_then_Ret_iff:
  "and_then f g m = (Ret x, m') \<longleftrightarrow> (\<exists>y m1. f m = (Ret y, m1) \<and> g y m1 = (Ret x, m'))"
  by (auto simp: and_then_def split: prod.splits outcome.splits)

lemma try_catch_rethrow_Ret_iff:
  "try_catch_rethrow f h m = (Ret x, m') \<longleftrightarrow> f m = (Ret x, m')"
  by (auto simp: try_catch_rethrow_def split: prod.splits outcome.splits)

lemma size_t_less: "size_t i < 2 ^ 64"
  by (simp add: size_t_def nat_less_iff)

lemma size_t_less_numeral: "size_t i < 18446744073709551616"
  using size_t_less [of i] by simp

lemma construct_at_Ret_in_block:
  assumes "construct_at T (b, i) a m = (Ret x, m')"
  shows "\<exists>blk. heap m b = Some blk \<and> i < length blk"
  using assms by (auto simp: construct_at_def slot_def split: option.splits if_splits)

lemma RawMemory_sized_block:
  assumes "wf_mem m" "RawMemory_sized n m = (Ret r, m1)" "heap m1 (buffer_m r) = Some blk"
  shows "length blk < 2 ^ 64"
proof -
  have "size_t i div s < 2 ^ 64" for i s
    using div_le_dividend [of "size_t i" s] size_t_less [of i] by linarith
  with assms show ?thesis
    by (auto simp: RawMemory_sized_def Allocate_def operator_new_def wf_mem_def split: if_splits)
qed

lemma Insert_move_vector_h_Ret:
  assumes wf: "wf_mem m" and e: "Emplace_vector_h T pos (Move val) (v, m) = (Ret p, s')"
  shows "Insert_move_vector_h T pos val (v, m) = (Ret p, s')"
proof (cases "size_m v = Capacity v")
  case False
  with e show ?thesis by (simp add: Insert_move_vector_h_in_place)
next
  case full: True
  from e obtain index where pd: "ptr_diff pos (GetAddress (data_m v)) = Some index"
    by (auto simp: Emplace_vector_h_def split: option.splits)
  define n where "n = (if size_m v = 0 then 1 else size_t (int (size_m v) * 2))"
  have nl: "n < 2 ^ 64" by (simp add: n_def size_t_less_numeral)
  from e pd full obtain nd m1 where al: "RawMemory_sized n m = (Ret nd, m1)"
    by (auto simp: Emplace_vector_h_def n_def split: prod.splits outcome.splits)
  define D :: "'a mem \<Rightarrow> unit outcome \<times> 'a mem"
    where "D = destroy_n (GetAddress (data_m v)) (size_m v)"
  define R where "R =
     (if nothrow_move_constructible T \<or> \<not> copy_constructible T
      then
        and_then
          (try_catch_rethrow
             (uninitialized_move_n T (GetAddress (data_m v)) index (GetAddress nd))
             (destroy_at (RawMemory_plus nd index)))
          (\<lambda>_. try_catch_rethrow
             (uninitialized_move_n T (RawMemory_plus (data_m v) index)
                (size_t (int (size_m v) - int index))
                (RawMemory_plus nd (size_t (int index + 1))))
             (destroy_n (GetAddress nd) (size_t (int index + 1))))
      else
        and_then
          (try_catch_rethrow
             (uninitialized_copy_n T (GetAddress (data_m v)) index (GetAddress nd))
             (destroy_at (RawMemory_plus nd index)))
          (\<lambda>_. try_catch_rethrow
             (uninitialized_copy_n T (RawMemory_plus (data_m v) index)
                (size_t (int (size_m v) - int index))
                (RawMemory_plus nd (size_t (int index + 1))))
             (destroy_n (GetAddress nd) (size_t (int index + 1)))))"
  define R' where "R' =
     (if nothrow_move_constructible T \<or> \<not> copy_constructible T
      then
        try_catch_rethrow
          (and_then
             (uninitialized_move_n T (begin_it v) index (GetAddress nd))
             (\<lambda>_. uninitialized_move_n T (ptr_add (begin_it v) index)
                (size_t (int (size_m v) - int index))
                (ptr_add (ptr_add (GetAddress nd) index) 1)))
          (destroy_n (ptr_add (GetAddress nd) index) 1)
      else
        try_catch_rethrow
          (and_then
             (uninitialized_copy_n T (begin_it v) index (GetAddress nd))
             (\<lambda>_. uninitialized_copy_n T (ptr_add (begin_it v) index)
                (size_t (int (size_m v) - int index))
                (ptr_add (ptr_add (GetAddress nd) index) 1)))
          (destroy_n (ptr_add (GetAddress nd) index) 1))"
  define body where "body r = and_then (construct_at T (RawMemory_plus nd index) (Move val))
       (\<lambda>_. and_then r (\<lambda>_. D))" for r :: "'a mem \<Rightarrow> unit outcome \<times> 'a mem"
  have E: "Emplace_vector_h T pos (Move val) (v, m) =
      (case body R m1 of
         (Ret _, m2) \<Rightarrow>
           (case RawMemory_Swap (data_m v, nd) of
              (d, new_data') \<Rightarrow>
                with_this (v\<lparr>data_m := d, size_m := size_t (int (size_m v) + 1)\<rparr>)
                  (scope_exit (Ret (RawMemory_plus d index)) (RawMemory_dtor new_data' m2)))
       | (Throw e, m2) \<Rightarrow> with_this v (scope_exit (Throw e) (RawMemory_dtor nd m2))
       | (Fault, m2) \<Rightarrow> (Fault, (v, m2)))"
    unfolding Emplace_vector_h_def prod.case pd option.case n_def [symmetric] al body_def R_def D_def
    using full by simp
  have I: "Insert_move_vector_h T pos val (v, m) =
      (case body R' m1 of
         (Ret _, m2) \<Rightarrow>
           (case RawMemory_Swap (data_m v, nd) of
              (d, new_data') \<Rightarrow>
                with_this (v\<lparr>data_m := d, size_m := size_t (int (size_m v) + 1)\<rparr>)
                  (scope_exit (Ret (RawMemory_plus d index)) (RawMemory_dtor new_data' m2)))
       | (Throw e, m2) \<Rightarrow> with_this v (scope_exit (Throw e) (RawMemory_dtor nd m2))
       | (Fault, m2) \<Rightarrow> (Fault, (v, m2)))"
    unfolding Insert_move_vector_h_def prod.case pd option.case n_def [symmetric] al body_def R'_def D_def
    using full by simp
  from e obtain m2 where b: "body R m1 = (Ret (), m2)"
    unfolding E by (auto split: prod.splits outcome.splits)
  then obtain mc where c: "construct_at T (RawMemory_plus nd index) (Move val) m1 = (Ret (), mc)"
    by (auto simp: body_def and_then_Ret_iff)
  from construct_at_Ret_in_block [OF c [unfolded RawMemory_plus_def]] obtain blk where
    "heap m1 (buffer_m nd) = Some blk" "index < length blk"
    by blast
  with RawMemory_sized_block [OF wf al] have "index + 1 < 2 ^ 64" by simp
  then have i1: "size_t (int index + 1) = index + 1"
    using size_t_id [of "index + 1"] by (simp add: add.commute)
  have "body R' m1 = (Ret (), m2)"
    using b
    by (auto simp: body_def R_def R'_def and_then_Ret_iff try_catch_rethrow_Ret_iff i1 begin_it_def
        GetAddress_def RawMemory_plus_def ptr_add_def)
  with e b show ?thesis unfolding E I by simp
qed

text \<open>
  C9. In \<^verbatim>\<open>part_000\<close> both overloads of \<^verbatim>\<open>Insert\<close> are calls of \<^verbatim>\<open>Emplace\<close>
  (\<open>Insert_part_000_is_Emplace\<close>). In \<^verbatim>\<open>vector.h\<close> the copying overload repeats the
  statements of \<^verbatim>\<open>Emplace\<close> (\<open>Insert_copy_vector_h_eq_Emplace\<close>), and the moving overload
  returns what \<^verbatim>\<open>Emplace\<close> returns whenever \<^verbatim>\<open>Emplace\<close> returns
  (\<open>Insert_move_vector_h_Ret\<close>). But the moving overload of \<^verbatim>\<open>vector.h\<close> does not fail
  as \<^verbatim>\<open>Emplace\<close> does. On the full vector \<open>[1, - 1]\<close> of an element type that is relocated
  by copy and whose copy constructor throws for \<open>- 1\<close>, inserting at \<^verbatim>\<open>begin() + 1\<close>
  throws in both, with the vector unchanged, after one move construction (the new
  element) and one copy construction (the relocated first element); \<^verbatim>\<open>Emplace\<close> has then
  run two destructors, \<^verbatim>\<open>Insert\<close> only one.
\<close>

theorem Insert_move_vector_h_leaks_prefix:
  "size_m (fst full_two) = Capacity (fst full_two) \<and>
   ptr_le (begin_it (fst full_two)) (1, 1) \<and> ptr_less (1, 1) (end_it (fst full_two)) \<and>
   observe (Emplace_vector_h fragile_type (1, 1) (Move 7) full_two) =
     (False, 2, 2, [Some (Some 1), Some (Some (- 1))]) \<and>
   observe (Insert_move_vector_h fragile_type (1, 1) 7 full_two) =
     (False, 2, 2, [Some (Some 1), Some (Some (- 1))]) \<and>
   fst (Emplace_vector_h fragile_type (1, 1) (Move 7) full_two) = Throw elem_error \<and>
   fst (Insert_move_vector_h fragile_type (1, 1) 7 full_two) = Throw elem_error \<and>
   move_ctor_calls (snd (snd (Emplace_vector_h fragile_type (1, 1) (Move 7) full_two))) = 1 \<and>
   copy_ctor_calls (snd (snd (Emplace_vector_h fragile_type (1, 1) (Move 7) full_two))) = 1 \<and>
   dtor_calls (snd (snd (Emplace_vector_h fragile_type (1, 1) (Move 7) full_two))) = 2 \<and>
   move_ctor_calls (snd (snd (Insert_move_vector_h fragile_type (1, 1) 7 full_two))) = 1 \<and>
   copy_ctor_calls (snd (snd (Insert_move_vector_h fragile_type (1, 1) 7 full_two))) = 1 \<and>
   dtor_calls (snd (snd (Insert_move_vector_h fragile_type (1, 1) 7 full_two))) = 1 \<and>
   Insert_move_part_000 fragile_type (1, 1) 7 full_two =
     Emplace_part_000 fragile_type (1, 1) (Move 7) full_two"
  by (simp add: observe_def full_two_def Emplace_vector_h_def Insert_move_vector_h_def
      Insert_move_part_000_def fragile_type_def prim_defs eval_nat_numeral)

end
